theory Spec2Isabelle
  imports
    Main
    "HOL-Library.Word"
    "HOL-Library.Char_ord"
    "HOL-Library.List_Lexorder"
    "HOL-Library.Multiset"
begin

section \<open>amqp-dead-letter: the message triage engine of dead_letter.go\<close>

text \<open>
  A shallow embedding of \<^verbatim>\<open>dead_letter.go\<close>. Go strings and byte slices are
  \<^typ>\<open>string\<close> (lists of bytes); the order on strings is the order on bytes, taken
  lexicographically, which is what Go's \<^verbatim>\<open><\<close> on strings computes. The broker, the
  prompt, the file system and the writers are explicit state, and every fallible call
  of an external library takes its result from a script of the environment.
\<close>

subsection \<open>Data model\<close>

text \<open>
  \<^verbatim>\<open>amqp.Table\<close> is \<^verbatim>\<open>map[string]interface{}\<close>. A header value is one of the
  dynamic types the AMQP library decodes: nil, a boolean, an integer, a string, a byte
  slice, an array, a nested table, or another value (a float, a decimal, a time), kept by
  its text. The table itself is the list of its entries in the order in which
  \<^verbatim>\<open>range\<close> happens to visit them; a Go map has no two entries with the same key.
\<close>

datatype hvalue =
    HNil
  | HBool bool
  | HInt int
  | HString string
  | HBytes string
  | HArray "hvalue list"
  | HTable "(string \<times> hvalue) list"
  | HOther string

type_synonym table = "(string \<times> hvalue) list"

text \<open>
  \<^verbatim>\<open>time.Time\<close>: the seconds since January 1 of year 1, the nanoseconds within the
  second, and the offset of the location in which the instant is shown.
\<close>

record gotime =
  sec :: int
  nsec :: nat
  zoneOffset :: int

definition zeroTime :: gotime where
  "zeroTime = \<lparr>sec = 0, nsec = 0, zoneOffset = 0\<rparr>"

definition IsZero :: "gotime \<Rightarrow> bool" where
  "IsZero t = (sec t = 0 \<and> nsec t = 0)"

definition unixToInternal :: int where
  "unixToInternal = 62135596800"

definition Unix :: "gotime \<Rightarrow> int" where
  "Unix t = sec t - unixToInternal"

text \<open>\<^verbatim>\<open>amqp.Publishing\<close>, the message handed to \<^verbatim>\<open>Channel.Publish\<close>.\<close>

record publishing =
  pub_Headers :: table
  pub_ContentType :: string
  pub_ContentEncoding :: string
  pub_DeliveryMode :: "8 word"
  pub_Priority :: "8 word"
  pub_CorrelationId :: string
  pub_ReplyTo :: string
  pub_Expiration :: string
  pub_MessageId :: string
  pub_Timestamp :: gotime
  pub_Type :: string
  pub_UserId :: string
  pub_AppId :: string
  pub_Body :: string

text \<open>
  \<^verbatim>\<open>amqp.Delivery\<close>. Its \<^verbatim>\<open>Acknowledger\<close> is the channel the message was fetched
  from, which is part of the state below.
\<close>

record delivery =
  Headers :: table
  ContentType :: string
  ContentEncoding :: string
  DeliveryMode :: "8 word"
  Priority :: "8 word"
  CorrelationId :: string
  ReplyTo :: string
  Expiration :: string
  MessageId :: string
  Timestamp :: gotime
  Type :: string
  UserId :: string
  AppId :: string
  ConsumerTag :: string
  MessageCount :: "32 word"
  DeliveryTag :: "64 word"
  Redelivered :: bool
  Exchange :: string
  RoutingKey :: string
  Body :: string

text \<open>The constants \<^verbatim>\<open>actionRepublishQueue\<close> ... \<^verbatim>\<open>actionDiscard\<close> (an \<^verbatim>\<open>iota\<close> block).\<close>

datatype action =
    actionRepublishQueue
  | actionRepublishExchange
  | actionSaveToFile
  | actionDiscard

subsection \<open>Header lookup, file name and the options offered\<close>

text \<open>
  \<^verbatim>\<open>getHeader\<close>: the loop over the table returns at the entry whose key is the one
  asked for, with the value if it is a string and the empty string otherwise.
\<close>

fun getHeader :: "table \<Rightarrow> string \<Rightarrow> string" where
  "getHeader [] key = ''''"
| "getHeader ((k, v) # table) key =
     (if k = key then (case v of HString s \<Rightarrow> s | _ \<Rightarrow> '''')
      else getHeader table key)"

definition filename :: "delivery \<Rightarrow> string" where
  "filename del = ''dead-letter-'' @ MessageId del @ ''.txt''"

text \<open>
  Lines 89 to 111 of \<^verbatim>\<open>process\<close>: the two parallel slices \<^verbatim>\<open>options\<close> and
  \<^verbatim>\<open>actions\<close>, each \<^verbatim>\<open>append\<close> adding one element at the end.
\<close>

definition choices :: "delivery \<Rightarrow> string list \<times> action list" where
  "choices del =
     (let exchange = getHeader (Headers del) ''x-first-death-exchange'';
          queue = getHeader (Headers del) ''x-first-death-queue'';
          options = [];
          actions = [];
          (options, actions) =
            (if queue \<noteq> ''''
             then (options @ [''republish to queue '' @ queue], actions @ [actionRepublishQueue])
             else (options, actions));
          (options, actions) =
            (if exchange \<noteq> ''''
             then (options @ [''republish to exchange '' @ exchange],
                   actions @ [actionRepublishExchange])
             else (options, actions));
          (options, actions) =
            (if MessageId del \<noteq> ''''
             then (options @ [''save to file '' @ filename del], actions @ [actionSaveToFile])
             else (options, actions));
          options = options @ [''discard''];
          actions = actions @ [actionDiscard]
      in (options, actions))"

definition options :: "delivery \<Rightarrow> string list" where
  "options del = fst (choices del)"

definition actions :: "delivery \<Rightarrow> action list" where
  "actions del = snd (choices del)"

text \<open>\<^verbatim>\<open>publishing\<close>: the message republished for a delivery.\<close>

definition publishing :: "delivery \<Rightarrow> publishing" where
  "publishing del =
     \<lparr>pub_Headers = Headers del,
      pub_ContentType = ContentType del,
      pub_ContentEncoding = ContentEncoding del,
      pub_DeliveryMode = DeliveryMode del,
      pub_Priority = Priority del,
      pub_CorrelationId = CorrelationId del,
      pub_ReplyTo = ReplyTo del,
      pub_Expiration = Expiration del,
      pub_MessageId = MessageId del,
      pub_Timestamp = Timestamp del,
      pub_Type = Type del,
      pub_UserId = UserId del,
      pub_AppId = AppId del,
      pub_Body = Body del\<rparr>"

subsection \<open>Errors and results\<close>

text \<open>
  \<^verbatim>\<open>errUsage\<close>, the error created in the save branch of \<^verbatim>\<open>process\<close>, and any
  error returned by an external library (with its message).
\<close>

datatype err =
    errUsage
  | errNoMessageId
  | ExtErr string

definition Error :: "err \<Rightarrow> string" where
  "Error e = (case e of
      errUsage \<Rightarrow> ''usage: amqp-dead-letter <url> <queue>''
    | errNoMessageId \<Rightarrow> ''cannot save to file without message_id''
    | ExtErr msg \<Rightarrow> msg)"

text \<open>
  What a function of the program ends with: it returns \<^verbatim>\<open>nil\<close>, returns an error,
  or panics (an index out of range).
\<close>

datatype result = Success | Failed err | Panic

subsection \<open>Writers\<close>

record property =
  Name :: string
  Value :: string

record header =
  Key :: string
  HValue :: hvalue

text \<open>
  What reaches an \<^verbatim>\<open>*os.File\<close>: the bytes of a write, or the rows handed to
  \<^verbatim>\<open>tableprinter.Print\<close>, whose layout belongs to that library.
\<close>

datatype out =
    Text string
  | PropTable "property list"
  | HeaderTable "header list"

text \<open>
  The result of one write: it succeeds, or it fails with a message after so many bytes.
  A writer holds what was written and the results of its next writes; after those, writes
  succeed.
\<close>

datatype wres = WOk | WErr string nat

record writer =
  wout :: "out list"
  wfaults :: "wres list"

definition Write :: "writer \<Rightarrow> string \<Rightarrow> writer \<times> err option" where
  "Write f s =
     (case wfaults f of
        [] \<Rightarrow> (f\<lparr>wout := wout f @ [Text s]\<rparr>, None)
      | WOk # rest \<Rightarrow> (f\<lparr>wout := wout f @ [Text s], wfaults := rest\<rparr>, None)
      | WErr msg n # rest \<Rightarrow>
          (f\<lparr>wout := wout f @ [Text (take n s)], wfaults := rest\<rparr>, Some (ExtErr msg)))"

definition newline :: string where
  "newline = [CHR 0x0A]"

definition Fprintln :: "writer \<Rightarrow> string \<Rightarrow> writer \<times> err option" where
  "Fprintln f s = Write f (s @ newline)"

text \<open>\<^verbatim>\<open>tableprinter.Print\<close> reports no error, and its count of rows is not used.\<close>

definition PrintProps :: "writer \<Rightarrow> property list \<Rightarrow> writer" where
  "PrintProps f rows = f\<lparr>wout := wout f @ [PropTable rows]\<rparr>"

definition PrintHeaders :: "writer \<Rightarrow> header list \<Rightarrow> writer" where
  "PrintHeaders f rows = f\<lparr>wout := wout f @ [HeaderTable rows]\<rparr>"

subsection \<open>The libraries for time and JSON\<close>

text \<open>
  \<^verbatim>\<open>encoding/json\<close> and \<^verbatim>\<open>Time.Format\<close> are parameters: the value a body decodes
  to (if it is JSON), the bytes an encoder with a prefix and an indentation writes for a
  value, and the text of an instant in a layout.
\<close>

record 'j lib =
  Unmarshal :: "string \<Rightarrow> 'j option"
  Encode :: "string \<Rightarrow> string \<Rightarrow> 'j \<Rightarrow> string"
  Format :: "gotime \<Rightarrow> string \<Rightarrow> string"

definition RFC3339 :: string where
  "RFC3339 = ''2006-01-02T15:04:05Z07:00''"

text \<open>The verb \<^verbatim>\<open>%d\<close>.\<close>

function showNat :: "nat \<Rightarrow> string" where
  "showNat n =
     (if n < 10 then [char_of (48 + n)]
      else showNat (n div 10) @ [char_of (48 + n mod 10)])"
  by pat_completeness auto
termination
  by (relation "measure id") auto

declare showNat.simps [simp del]

definition showInt :: "int \<Rightarrow> string" where
  "showInt i = (if i < 0 then ''-'' @ showNat (nat (- i)) else showNat (nat i))"

subsection \<open>Rendering a delivery\<close>

definition timestamp :: "'j lib \<Rightarrow> delivery \<Rightarrow> string" where
  "timestamp L del =
     (if IsZero (Timestamp del) then ''''
      else showInt (Unix (Timestamp del)) @ '' ('' @ Format L (Timestamp del) RFC3339 @ '')'')"

definition props :: "'j lib \<Rightarrow> delivery \<Rightarrow> property list" where
  "props L del =
     [\<lparr>Name = ''message_id'', Value = MessageId del\<rparr>,
      \<lparr>Name = ''type'', Value = Type del\<rparr>,
      \<lparr>Name = ''routing_key'', Value = RoutingKey del\<rparr>,
      \<lparr>Name = ''timestamp'', Value = timestamp L del\<rparr>,
      \<lparr>Name = ''content_type'', Value = ContentType del\<rparr>,
      \<lparr>Name = ''content_encoding'', Value = ContentEncoding del\<rparr>,
      \<lparr>Name = ''correlation_id'', Value = CorrelationId del\<rparr>,
      \<lparr>Name = ''reply_to'', Value = ReplyTo del\<rparr>,
      \<lparr>Name = ''expiration'', Value = Expiration del\<rparr>,
      \<lparr>Name = ''user_id'', Value = UserId del\<rparr>,
      \<lparr>Name = ''app_id'', Value = AppId del\<rparr>]"

text \<open>
  The rows of \<^verbatim>\<open>printProperties\<close>: the loop keeps the properties with a value, and
  \<^verbatim>\<open>sort.Slice\<close> orders them by name. \<^verbatim>\<open>sort.Slice\<close> is any sort by the given
  \<^verbatim>\<open>less\<close>, here insertion sort; lemma \<open>sorted_rows_unique\<close> shows that the
  algorithm does not matter when no two rows have the same name.
\<close>

definition setProps :: "'j lib \<Rightarrow> delivery \<Rightarrow> property list" where
  "setProps L del = sort_key Name (filter (\<lambda>p. Value p \<noteq> '''') (props L del))"

definition printProperties :: "'j lib \<Rightarrow> writer \<Rightarrow> delivery \<Rightarrow> writer \<times> err option" where
  "printProperties L f del =
     (case Fprintln f ''PROPERTIES'' of
        (f, Some e) \<Rightarrow> (f, Some e)
      | (f, None) \<Rightarrow> (PrintProps f (setProps L del), None))"

text \<open>The rows of \<^verbatim>\<open>printHeaders\<close>: one per entry of the table, ordered by key.\<close>

definition headers :: "delivery \<Rightarrow> header list" where
  "headers del = sort_key Key (map (\<lambda>(k, v). \<lparr>Key = k, HValue = v\<rparr>) (Headers del))"

definition printHeaders :: "writer \<Rightarrow> delivery \<Rightarrow> writer \<times> err option" where
  "printHeaders f del =
     (case Fprintln f ''HEADERS'' of
        (f, Some e) \<Rightarrow> (f, Some e)
      | (f, None) \<Rightarrow> (PrintHeaders f (headers del), None))"

text \<open>
  \<^verbatim>\<open>printPayload\<close>. The encoder writes the indented value in one write, and
  \<^verbatim>\<open>Encode\<close> returns the error of that write; a value that \<^verbatim>\<open>Unmarshal\<close> produced
  always encodes.
\<close>

definition printPayload :: "'j lib \<Rightarrow> writer \<Rightarrow> delivery \<Rightarrow> writer \<times> err option" where
  "printPayload L f del =
     (case Fprintln f ''PAYLOAD'' of
        (f, Some e) \<Rightarrow> (f, Some e)
      | (f, None) \<Rightarrow>
          if ContentType del = ''application/json'' then
            (case Unmarshal L (Body del) of
               Some payload \<Rightarrow>
                 (case Write f (Encode L '''' ''  '' payload) of
                    (f, Some e) \<Rightarrow> (f, Some e)
                  | (f, None) \<Rightarrow> (f, None))
             | None \<Rightarrow> (f, None))
          else Fprintln f (Body del))"

definition printDelivery :: "'j lib \<Rightarrow> writer \<Rightarrow> delivery \<Rightarrow> writer \<times> err option" where
  "printDelivery L f del =
     (case printProperties L f del of
        (f, Some e) \<Rightarrow> (f, Some e)
      | (f, None) \<Rightarrow>
          (case printHeaders f del of
             (f, Some e) \<Rightarrow> (f, Some e)
           | (f, None) \<Rightarrow>
               (case printPayload L f del of
                  (f, Some e) \<Rightarrow> (f, Some e)
                | (f, None) \<Rightarrow> (f, None))))"

subsection \<open>The broker, the prompt and the file system\<close>

text \<open>
  The state outside the program: what \<^verbatim>\<open>os.Stdout\<close> received, the files on disk
  and the files created and not yet closed, the prompts shown, and on the side of the
  broker the calls made (\<^verbatim>\<open>Dial\<close>, \<^verbatim>\<open>Channel\<close>, \<^verbatim>\<open>Get\<close>, \<^verbatim>\<open>Publish\<close>,
  \<^verbatim>\<open>Ack\<close> with its result) and the tags delivered and not yet acknowledged.
\<close>

record world =
  stdout :: writer
  files :: "string \<rightharpoonup> out list"
  openFiles :: "string list"
  prompts :: "(string \<times> string list) list"
  dials :: "string list"
  channels :: nat
  gets :: "(string \<times> bool) list"
  unacked :: "64 word list"
  publishes :: "(string \<times> string \<times> bool \<times> bool \<times> publishing) list"
  acks :: "(64 word \<times> bool \<times> string option) list"

text \<open>
  The results of the external calls that \<^verbatim>\<open>process\<close> makes for one message: the
  answer of \<^verbatim>\<open>survey.AskOne\<close> (an error, or the index of the option chosen), and the
  results of \<^verbatim>\<open>Publish\<close>, \<^verbatim>\<open>os.Create\<close>, the writes to the created file,
  \<^verbatim>\<open>Close\<close> and \<^verbatim>\<open>Ack\<close>.
\<close>

record script =
  askRes :: "string + nat"
  publishRes :: "string option"
  createRes :: "string option"
  fileFaults :: "wres list"
  closeRes :: "string option"
  ackRes :: "string option"

text \<open>
  One turn of the loop of \<^verbatim>\<open>work\<close> as the environment decides it: whether
  \<^verbatim>\<open>ctx.Done()\<close> is ready, what \<^verbatim>\<open>Get\<close> returns (an error, no message, or a
  message), and the script for that message.
\<close>

record turn =
  cancelled :: bool
  getRes :: "string + delivery option"
  turnScript :: script

record env =
  dialRes :: "string option"
  channelRes :: "string option"
  turns :: "turn list"

definition Println :: "world \<Rightarrow> string \<Rightarrow> world" where
  "Println w s = w\<lparr>stdout := fst (Fprintln (stdout w) s)\<rparr>"

definition AskOne :: "world \<Rightarrow> string \<Rightarrow> string list \<Rightarrow> string + nat \<Rightarrow> world \<times> (err + nat)" where
  "AskOne w message opts r =
     (w\<lparr>prompts := prompts w @ [(message, opts)]\<rparr>,
      case r of Inl msg \<Rightarrow> Inl (ExtErr msg) | Inr i \<Rightarrow> Inr i)"

definition Publish ::
  "world \<Rightarrow> string \<Rightarrow> string \<Rightarrow> bool \<Rightarrow> bool \<Rightarrow> publishing \<Rightarrow> string option \<Rightarrow> world \<times> err option"
where
  "Publish ch exchange key mandatory immediate msg r =
     (ch\<lparr>publishes := publishes ch @ [(exchange, key, mandatory, immediate, msg)]\<rparr>,
      map_option ExtErr r)"

definition Ack :: "world \<Rightarrow> 64 word \<Rightarrow> bool \<Rightarrow> string option \<Rightarrow> world \<times> result" where
  "Ack ch tag multiple r =
     (case r of
        None \<Rightarrow>
          (ch\<lparr>acks := acks ch @ [(tag, multiple, None)],
              unacked := (if multiple then filter (\<lambda>t. tag < t) (unacked ch)
                          else remove1 tag (unacked ch))\<rparr>, Success)
      | Some msg \<Rightarrow> (ch\<lparr>acks := acks ch @ [(tag, multiple, Some msg)]\<rparr>, Failed (ExtErr msg)))"

definition Get ::
  "world \<Rightarrow> string \<Rightarrow> bool \<Rightarrow> string + delivery option \<Rightarrow> world \<times> (err + delivery option)"
where
  "Get ch queue autoAck r =
     (let ch = ch\<lparr>gets := gets ch @ [(queue, autoAck)]\<rparr>
      in case r of
           Inl msg \<Rightarrow> (ch, Inl (ExtErr msg))
         | Inr None \<Rightarrow> (ch, Inr None)
         | Inr (Some del) \<Rightarrow>
             (if autoAck then ch else ch\<lparr>unacked := unacked ch @ [DeliveryTag del]\<rparr>,
              Inr (Some del)))"

definition Dial :: "world \<Rightarrow> string \<Rightarrow> string option \<Rightarrow> world \<times> err option" where
  "Dial w url r = (w\<lparr>dials := dials w @ [url]\<rparr>, map_option ExtErr r)"

definition Channel :: "world \<Rightarrow> string option \<Rightarrow> world \<times> err option" where
  "Channel w r = (w\<lparr>channels := channels w + 1\<rparr>, map_option ExtErr r)"

text \<open>
  \<^verbatim>\<open>os.Create\<close> makes the file empty, whether it existed or not; what is then written
  to the handle is the content of the file. \<^verbatim>\<open>Close\<close> gives the handle up, whatever
  it returns.
\<close>

definition Create :: "world \<Rightarrow> string \<Rightarrow> string option \<Rightarrow> wres list \<Rightarrow> world \<times> (err + writer)" where
  "Create w name r faults =
     (case r of
        Some msg \<Rightarrow> (w, Inl (ExtErr msg))
      | None \<Rightarrow>
          (w\<lparr>files := (files w)(name \<mapsto> []), openFiles := name # openFiles w\<rparr>,
           Inr \<lparr>wout = [], wfaults = faults\<rparr>))"

definition written :: "world \<Rightarrow> string \<Rightarrow> writer \<Rightarrow> world" where
  "written w name f = w\<lparr>files := (files w)(name \<mapsto> wout f)\<rparr>"

definition Close :: "world \<Rightarrow> string \<Rightarrow> string option \<Rightarrow> world \<times> err option" where
  "Close w name r = (w\<lparr>openFiles := remove1 name (openFiles w)\<rparr>, map_option ExtErr r)"

subsection \<open>Processing one message\<close>

text \<open>
  The \<^verbatim>\<open>switch\<close> of \<^verbatim>\<open>process\<close> on the action chosen. It has a case for each
  of the four actions, so the \<^verbatim>\<open>return nil\<close> after it is never reached.
\<close>

fun switch :: "'j lib \<Rightarrow> script \<Rightarrow> world \<Rightarrow> delivery \<Rightarrow> action \<Rightarrow> world \<times> result" where
  "switch L s ch del actionRepublishQueue =
     (let queue = getHeader (Headers del) ''x-first-death-queue''
      in case Publish ch '''' queue False False (publishing del) (publishRes s) of
           (ch, Some e) \<Rightarrow> (ch, Failed e)
         | (ch, None) \<Rightarrow>
             Ack (Println ch (''republished directly to queue '' @ queue))
               (DeliveryTag del) False (ackRes s))"
| "switch L s ch del actionRepublishExchange =
     (let exchange = getHeader (Headers del) ''x-first-death-exchange''
      in case Publish ch exchange (RoutingKey del) False False (publishing del)
                (publishRes s) of
           (ch, Some e) \<Rightarrow> (ch, Failed e)
         | (ch, None) \<Rightarrow>
             Ack (Println ch (''republished to exchange '' @ exchange))
               (DeliveryTag del) False (ackRes s))"
| "switch L s ch del actionSaveToFile =
     (if MessageId del = '''' then (ch, Failed errNoMessageId)
      else (case Create ch (filename del) (createRes s) (fileFaults s) of
              (ch, Inl e) \<Rightarrow> (ch, Failed e)
            | (ch, Inr f) \<Rightarrow>
                (case printDelivery L f del of
                   (f, Some e) \<Rightarrow> (written ch (filename del) f, Failed e)
                 | (f, None) \<Rightarrow>
                     (case Close (written ch (filename del) f) (filename del) (closeRes s) of
                        (ch, Some e) \<Rightarrow> (ch, Failed e)
                      | (ch, None) \<Rightarrow> Ack ch (DeliveryTag del) False (ackRes s)))))"
| "switch L s ch del actionDiscard = Ack ch (DeliveryTag del) False (ackRes s)"

text \<open>
  The screen output at the head of \<^verbatim>\<open>process\<close>: the \<^verbatim>\<open>Printf\<close> and the first
  \<^verbatim>\<open>printDelivery\<close>, whose error is not looked at.
\<close>

definition display :: "'j lib \<Rightarrow> world \<Rightarrow> delivery \<Rightarrow> world" where
  "display L ch del =
     (let ch = ch\<lparr>stdout := fst (Write (stdout ch)
                 (''MESSAGE '' @ showNat (unat (DeliveryTag del)) @ '' (''
                  @ showNat (unat (MessageCount del)) @ '' remaining)'' @ newline))\<rparr>
      in ch\<lparr>stdout := fst (printDelivery L (stdout ch) del)\<rparr>)"

text \<open>
  \<^verbatim>\<open>process\<close>: display, the options and actions, the prompt, and the
  \<^verbatim>\<open>switch\<close> on \<^verbatim>\<open>actions[answer]\<close>, which panics when the index is out of range.
\<close>

definition process :: "'j lib \<Rightarrow> script \<Rightarrow> world \<Rightarrow> delivery \<Rightarrow> world \<times> result" where
  "process L s ch del =
     (case AskOne (display L ch del) ''choose an action'' (options del) (askRes s) of
        (ch, Inl e) \<Rightarrow> (ch, Failed e)
      | (ch, Inr answer) \<Rightarrow>
          if \<not> answer < length (actions del) then (ch, Panic)
          else switch L s ch del (actions del ! answer))"

subsection \<open>The loop and the entry point\<close>

datatype lstate = Running | Stopped result

text \<open>One turn of the \<^verbatim>\<open>for\<close> loop of \<^verbatim>\<open>work\<close>.\<close>

definition workTurn :: "'j lib \<Rightarrow> turn \<Rightarrow> world \<Rightarrow> string \<Rightarrow> world \<times> lstate" where
  "workTurn L t ch queue =
     (if cancelled t then (ch, Stopped Success)
      else (case Get ch queue False (getRes t) of
              (ch, Inl e) \<Rightarrow> (ch, Stopped (Failed e))
            | (ch, Inr None) \<Rightarrow> (Println ch ''no messages left'', Stopped Success)
            | (ch, Inr (Some del)) \<Rightarrow>
                (case process L (turnScript t) ch del of
                   (ch, Success) \<Rightarrow> (ch, Running)
                 | (ch, r) \<Rightarrow> (ch, Stopped r))))"

text \<open>
  \<^verbatim>\<open>work\<close>: the loop runs for as long as the environment has turns; \<open>Running\<close> is
  the loop that has not returned when they are used up.
\<close>

fun work :: "'j lib \<Rightarrow> turn list \<Rightarrow> world \<Rightarrow> string \<Rightarrow> world \<times> lstate" where
  "work L [] ch queue = (ch, Running)"
| "work L (t # ctx) ch queue =
     (case workTurn L t ch queue of
        (ch, Running) \<Rightarrow> work L ctx ch queue
      | (ch, Stopped r) \<Rightarrow> (ch, Stopped r))"

text \<open>\<^verbatim>\<open>run\<close>, with \<^verbatim>\<open>os.Args\<close> as \<open>args\<close>.\<close>

definition run :: "'j lib \<Rightarrow> env \<Rightarrow> string list \<Rightarrow> world \<Rightarrow> world \<times> lstate" where
  "run L e args w =
     (if length args \<noteq> 3 then (w, Stopped (Failed errUsage))
      else let url = args ! 1; queue = args ! 2
           in if url = '''' then (w, Stopped (Failed errUsage))
              else if queue = '''' then (w, Stopped (Failed errUsage))
              else (case Dial w url (dialRes e) of
                      (w, Some err) \<Rightarrow> (w, Stopped (Failed err))
                    | (conn, None) \<Rightarrow>
                        (case Channel conn (channelRes e) of
                           (w, Some err) \<Rightarrow> (w, Stopped (Failed err))
                         | (ch, None) \<Rightarrow> work L (turns e) ch queue)))"

text \<open>
  \<^verbatim>\<open>main\<close> and the exit status of the process: 1 after \<^verbatim>\<open>os.Exit(1)\<close>, 0 when
  \<^verbatim>\<open>main\<close> returns, 2 when the runtime ends on a panic, and none while the loop runs.
\<close>

definition main :: "'j lib \<Rightarrow> env \<Rightarrow> string list \<Rightarrow> world \<Rightarrow> world \<times> nat option" where
  "main L e args w =
     (case run L e args w of
        (w, Stopped (Failed err)) \<Rightarrow> (Println w (Error err), Some 1)
      | (w, Stopped Success) \<Rightarrow> (w, Some 0)
      | (w, Stopped Panic) \<Rightarrow> (w, Some 2)
      | (w, Running) \<Rightarrow> (w, None))"

subsection \<open>The labels of the specification, and example inputs\<close>

text \<open>
  The label that section 4.3 of the specification gives each disposition, to be compared
  with the options that \<^verbatim>\<open>process\<close> builds.
\<close>

definition label :: "delivery \<Rightarrow> action \<Rightarrow> string" where
  "label del a = (case a of
      actionRepublishQueue \<Rightarrow>
        ''republish to queue '' @ getHeader (Headers del) ''x-first-death-queue''
    | actionRepublishExchange \<Rightarrow>
        ''republish to exchange '' @ getHeader (Headers del) ''x-first-death-exchange''
    | actionSaveToFile \<Rightarrow> ''save to file dead-letter-'' @ MessageId del @ ''.txt''
    | actionDiscard \<Rightarrow> ''discard'')"

text \<open>A delivery with every field at its zero value, and the state before the first call.\<close>

definition del0 :: delivery where
  "del0 = \<lparr>Headers = [], ContentType = '''', ContentEncoding = '''', DeliveryMode = 0,
     Priority = 0, CorrelationId = '''', ReplyTo = '''', Expiration = '''', MessageId = '''',
     Timestamp = zeroTime, Type = '''', UserId = '''', AppId = '''', ConsumerTag = '''',
     MessageCount = 0, DeliveryTag = 0, Redelivered = False, Exchange = '''',
     RoutingKey = '''', Body = ''''\<rparr>"

definition world0 :: world where
  "world0 = \<lparr>stdout = \<lparr>wout = [], wfaults = []\<rparr>, files = Map.empty, openFiles = [],
     prompts = [], dials = [], channels = 0, gets = [], unacked = [], publishes = [],
     acks = []\<rparr>"

text \<open>The script in which the operator picks option \<open>i\<close> and every call succeeds.\<close>

definition pick :: "nat \<Rightarrow> script" where
  "pick i = \<lparr>askRes = Inr i, publishRes = None, createRes = None, fileFaults = [],
     closeRes = None, ackRes = None\<rparr>"

text \<open>
  Stand-ins for the libraries in the examples: one body is JSON, and every instant is
  shown as the same text.
\<close>

definition lib0 :: "string lib" where
  "lib0 = \<lparr>Unmarshal = (\<lambda>b. if b = ''{\"a\":1}'' then Some ''\"a\": 1'' else None),
     Encode = (\<lambda>prefix indent v.
       prefix @ ''{'' @ newline @ prefix @ indent @ v @ newline @ prefix @ ''}'' @ newline),
     Format = (\<lambda>t layout. ''2021-03-04T05:06:07Z'')\<rparr>"

text \<open>
  Scenario B of the specification: dead-lettered from queue \<open>orders.retry\<close>, no exchange
  header, message id \<open>m1\<close>.
\<close>

definition scenarioB :: delivery where
  "scenarioB = del0\<lparr>Headers := [(''x-first-death-queue'', HString ''orders.retry'')],
     MessageId := ''m1'', DeliveryTag := 7\<rparr>"

text \<open>A delivery with both death headers, a routing key, a JSON body and a time stamp.\<close>

definition dead1 :: delivery where
  "dead1 = del0\<lparr>Headers := [(''x-first-death-queue'', HString ''orders''),
       (''x-first-death-exchange'', HString ''shop''), (''x-foo'', HString ''bar'')],
     ContentType := ''application/json'', MessageId := ''m1'',
     Timestamp := \<lparr>sec = 62135596800 + 1614834367, nsec = 0, zoneOffset = 0\<rparr>,
     DeliveryTag := 3, RoutingKey := ''order.created'', Body := ''{\"a\":1}''\<rparr>"

text \<open>
  A delivery whose queue header holds a number, and one whose exchange header holds a
  boolean next to a proper queue header.
\<close>

definition oddHeader :: delivery where
  "oddHeader = del0\<lparr>Headers := [(''x-first-death-queue'', HInt 5)], DeliveryTag := 9\<rparr>"

definition oddExchange :: delivery where
  "oddExchange = del0\<lparr>Headers := [(''x-first-death-exchange'', HBool True),
     (''x-first-death-queue'', HString ''orders'')], DeliveryTag := 10\<rparr>"


definition closeFails :: script where
  "closeFails = (pick 2)\<lparr>closeRes := Some ''input/output error''\<rparr>"


text \<open>
  Turns of the loop: the operator has interrupted; the queue is empty; \<^verbatim>\<open>Get\<close> fails;
  a message arrives and is handled with a script. And the environment in which
  \<^verbatim>\<open>Dial\<close> and \<^verbatim>\<open>Channel\<close> succeed.
\<close>

definition interrupted :: turn where
  "interrupted = \<lparr>cancelled = True, getRes = Inr None, turnScript = pick 0\<rparr>"

definition drained :: turn where
  "drained = \<lparr>cancelled = False, getRes = Inr None, turnScript = pick 0\<rparr>"

definition getFails :: turn where
  "getFails = \<lparr>cancelled = False, getRes = Inl ''connection reset'', turnScript = pick 0\<rparr>"

definition deliver :: "delivery \<Rightarrow> script \<Rightarrow> turn" where
  "deliver del s = \<lparr>cancelled = False, getRes = Inr (Some del), turnScript = s\<rparr>"

definition connected :: "turn list \<Rightarrow> env" where
  "connected ts = \<lparr>dialRes = None, channelRes = None, turns = ts\<rparr>"

section \<open>Properties\<close>

subsection \<open>The external calls change only their own part of the state\<close>

lemma Ack_fields:
  "stdout (fst (Ack ch t m r)) = stdout ch"
  "files (fst (Ack ch t m r)) = files ch"
  "openFiles (fst (Ack ch t m r)) = openFiles ch"
  "prompts (fst (Ack ch t m r)) = prompts ch"
  "dials (fst (Ack ch t m r)) = dials ch"
  "channels (fst (Ack ch t m r)) = channels ch"
  "gets (fst (Ack ch t m r)) = gets ch"
  "publishes (fst (Ack ch t m r)) = publishes ch"
  "acks (fst (Ack ch t m r)) = acks ch @ [(t, m, r)]"
  by (simp_all add: Ack_def split: option.splits)

lemma Ack_result:
  "snd (Ack ch t m r) = (case r of None \<Rightarrow> Success | Some msg \<Rightarrow> Failed (ExtErr msg))"
  by (simp add: Ack_def split: option.splits)

lemma Ack_unacked:
  "unacked (fst (Ack ch t False r)) = (if r = None then remove1 t (unacked ch) else unacked ch)"
  by (simp add: Ack_def split: option.splits)

lemma Publish_fields:
  "stdout (fst (Publish ch x k m i p r)) = stdout ch"
  "files (fst (Publish ch x k m i p r)) = files ch"
  "openFiles (fst (Publish ch x k m i p r)) = openFiles ch"
  "prompts (fst (Publish ch x k m i p r)) = prompts ch"
  "dials (fst (Publish ch x k m i p r)) = dials ch"
  "channels (fst (Publish ch x k m i p r)) = channels ch"
  "gets (fst (Publish ch x k m i p r)) = gets ch"
  "unacked (fst (Publish ch x k m i p r)) = unacked ch"
  "acks (fst (Publish ch x k m i p r)) = acks ch"
  "publishes (fst (Publish ch x k m i p r)) = publishes ch @ [(x, k, m, i, p)]"
  "snd (Publish ch x k m i p r) = map_option ExtErr r"
  by (simp_all add: Publish_def)

lemma Println_fields:
  "files (Println ch s) = files ch"
  "openFiles (Println ch s) = openFiles ch"
  "prompts (Println ch s) = prompts ch"
  "dials (Println ch s) = dials ch"
  "channels (Println ch s) = channels ch"
  "gets (Println ch s) = gets ch"
  "unacked (Println ch s) = unacked ch"
  "acks (Println ch s) = acks ch"
  "publishes (Println ch s) = publishes ch"
  by (simp_all add: Println_def)

lemma display_fields:
  "files (display L ch del) = files ch"
  "openFiles (display L ch del) = openFiles ch"
  "prompts (display L ch del) = prompts ch"
  "dials (display L ch del) = dials ch"
  "channels (display L ch del) = channels ch"
  "gets (display L ch del) = gets ch"
  "unacked (display L ch del) = unacked ch"
  "acks (display L ch del) = acks ch"
  "publishes (display L ch del) = publishes ch"
  by (simp_all add: display_def Let_def)

lemma AskOne_fields:
  "stdout (fst (AskOne ch m os r)) = stdout ch"
  "files (fst (AskOne ch m os r)) = files ch"
  "openFiles (fst (AskOne ch m os r)) = openFiles ch"
  "prompts (fst (AskOne ch m os r)) = prompts ch @ [(m, os)]"
  "dials (fst (AskOne ch m os r)) = dials ch"
  "channels (fst (AskOne ch m os r)) = channels ch"
  "gets (fst (AskOne ch m os r)) = gets ch"
  "unacked (fst (AskOne ch m os r)) = unacked ch"
  "acks (fst (AskOne ch m os r)) = acks ch"
  "publishes (fst (AskOne ch m os r)) = publishes ch"
  by (simp_all add: AskOne_def)

lemma AskOne_result:
  "snd (AskOne ch m os r) = (case r of Inl msg \<Rightarrow> Inl (ExtErr msg) | Inr i \<Rightarrow> Inr i)"
  by (simp add: AskOne_def)

lemma Create_fields:
  "stdout (fst (Create ch n r fs)) = stdout ch"
  "prompts (fst (Create ch n r fs)) = prompts ch"
  "dials (fst (Create ch n r fs)) = dials ch"
  "channels (fst (Create ch n r fs)) = channels ch"
  "gets (fst (Create ch n r fs)) = gets ch"
  "unacked (fst (Create ch n r fs)) = unacked ch"
  "acks (fst (Create ch n r fs)) = acks ch"
  "publishes (fst (Create ch n r fs)) = publishes ch"
  by (simp_all add: Create_def split: option.splits)

lemma Create_result:
  "snd (Create ch n r fs) =
     (case r of Some msg \<Rightarrow> Inl (ExtErr msg) | None \<Rightarrow> Inr \<lparr>wout = [], wfaults = fs\<rparr>)"
  "files (fst (Create ch n r fs)) =
     (case r of Some msg \<Rightarrow> files ch | None \<Rightarrow> (files ch)(n \<mapsto> []))"
  "openFiles (fst (Create ch n r fs)) =
     (case r of Some msg \<Rightarrow> openFiles ch | None \<Rightarrow> n # openFiles ch)"
  by (simp_all add: Create_def split: option.splits)

lemma written_fields:
  "stdout (written ch n f) = stdout ch"
  "openFiles (written ch n f) = openFiles ch"
  "prompts (written ch n f) = prompts ch"
  "dials (written ch n f) = dials ch"
  "channels (written ch n f) = channels ch"
  "gets (written ch n f) = gets ch"
  "unacked (written ch n f) = unacked ch"
  "acks (written ch n f) = acks ch"
  "publishes (written ch n f) = publishes ch"
  "files (written ch n f) = (files ch)(n \<mapsto> wout f)"
  by (simp_all add: written_def)

lemma Close_fields:
  "stdout (fst (Close ch n r)) = stdout ch"
  "files (fst (Close ch n r)) = files ch"
  "prompts (fst (Close ch n r)) = prompts ch"
  "dials (fst (Close ch n r)) = dials ch"
  "channels (fst (Close ch n r)) = channels ch"
  "gets (fst (Close ch n r)) = gets ch"
  "unacked (fst (Close ch n r)) = unacked ch"
  "acks (fst (Close ch n r)) = acks ch"
  "publishes (fst (Close ch n r)) = publishes ch"
  "openFiles (fst (Close ch n r)) = remove1 n (openFiles ch)"
  "snd (Close ch n r) = map_option ExtErr r"
  by (simp_all add: Close_def)

lemmas prim_fields = Ack_fields Publish_fields Println_fields display_fields AskOne_fields
  Create_fields Create_result written_fields Close_fields

subsection \<open>The options offered\<close>

lemma getHeader_map_of:
  "getHeader t key = (case map_of t key of Some (HString s) \<Rightarrow> s | _ \<Rightarrow> '''')"
  by (induction t) (auto split: hvalue.splits)

lemma getHeader_removed:
  "getHeader (filter (\<lambda>(k, v). k \<noteq> key) t) key' =
     (if key' = key then '''' else getHeader t key')"
  by (induction t) auto

lemma getHeader_not_string:
  assumes "map_of t key = Some v" and "\<forall>s. v \<noteq> HString s"
  shows "getHeader t key = ''''"
  using assms by (cases v) (simp_all add: getHeader_map_of)

lemma getHeader_nonempty_iff:
  "(getHeader t key \<noteq> '''') = (\<exists>s. s \<noteq> '''' \<and> map_of t key = Some (HString s))"
  by (simp add: getHeader_map_of split: option.splits hvalue.splits)

lemma actions_eq:
  "actions del =
     (if getHeader (Headers del) ''x-first-death-queue'' \<noteq> '''' then [actionRepublishQueue] else [])
     @ (if getHeader (Headers del) ''x-first-death-exchange'' \<noteq> '''' then [actionRepublishExchange] else [])
     @ (if MessageId del \<noteq> '''' then [actionSaveToFile] else [])
     @ [actionDiscard]"
  by (simp add: actions_def choices_def Let_def)

lemma options_eq: "options del = map (label del) (actions del)"
  by (simp add: options_def actions_def choices_def Let_def label_def filename_def)

lemma switch_prompts: "prompts (fst (switch L s ch del a)) = prompts ch"
  by (cases a) (simp_all add: Let_def case_prod_beta prim_fields split: option.splits sum.splits)

lemma process_prompts:
  "prompts (fst (process L s ch del)) = prompts ch @ [(''choose an action'', options del)]"
  by (simp add: process_def case_prod_beta prim_fields switch_prompts AskOne_result
      split: sum.splits)

text \<open>
  Claim C1. For every delivery, the list of actions behind the options shown to the
  operator holds \<open>actionRepublishQueue\<close> exactly when the header
  \<open>x-first-death-queue\<close> reads as a non-empty string, then \<open>actionRepublishExchange\<close>
  exactly when \<open>x-first-death-exchange\<close> does, then \<open>actionSaveToFile\<close> exactly when
  the message id is non-empty, and \<open>actionDiscard\<close> last. The options of the prompt are
  those of \<open>options\<close>; options and actions have the same length, the option at each
  position is the label of the action at that position, and no action occurs twice. A
  header reads as a non-empty string exactly when the table holds a non-empty string for
  its key.
\<close>

theorem C1_dispositions_offered:
  "prompts (fst (process L s ch del)) = prompts ch @ [(''choose an action'', options del)]
   \<and> actions del =
       (if getHeader (Headers del) ''x-first-death-queue'' \<noteq> ''''
        then [actionRepublishQueue] else [])
       @ (if getHeader (Headers del) ''x-first-death-exchange'' \<noteq> ''''
          then [actionRepublishExchange] else [])
       @ (if MessageId del \<noteq> '''' then [actionSaveToFile] else [])
       @ [actionDiscard]
   \<and> (actionRepublishQueue \<in> set (actions del))
       = (getHeader (Headers del) ''x-first-death-queue'' \<noteq> '''')
   \<and> (actionRepublishExchange \<in> set (actions del))
       = (getHeader (Headers del) ''x-first-death-exchange'' \<noteq> '''')
   \<and> (actionSaveToFile \<in> set (actions del)) = (MessageId del \<noteq> '''')
   \<and> last (actions del) = actionDiscard
   \<and> length (options del) = length (actions del)
   \<and> (\<forall>i < length (actions del). options del ! i = label del (actions del ! i))
   \<and> distinct (actions del)
   \<and> (getHeader (Headers del) ''x-first-death-queue'' \<noteq> '''')
       = (\<exists>s. s \<noteq> '''' \<and> map_of (Headers del) ''x-first-death-queue'' = Some (HString s))
   \<and> (getHeader (Headers del) ''x-first-death-exchange'' \<noteq> '''')
       = (\<exists>s. s \<noteq> '''' \<and> map_of (Headers del) ''x-first-death-exchange'' = Some (HString s))"
proof -
  have "length (options del) = length (actions del)"
    by (simp add: options_eq)
  moreover have "\<forall>i < length (actions del). options del ! i = label del (actions del ! i)"
    by (simp add: options_eq)
  moreover have "distinct (actions del)" "last (actions del) = actionDiscard"
    by (simp_all add: actions_eq)
  moreover have
    "(actionRepublishQueue \<in> set (actions del))
       = (getHeader (Headers del) ''x-first-death-queue'' \<noteq> '''')"
    "(actionRepublishExchange \<in> set (actions del))
       = (getHeader (Headers del) ''x-first-death-exchange'' \<noteq> '''')"
    "(actionSaveToFile \<in> set (actions del)) = (MessageId del \<noteq> '''')"
    by (simp_all add: actions_eq)
  ultimately show ?thesis
    using process_prompts [of L s ch del] actions_eq [of del]
      getHeader_nonempty_iff [of "Headers del" "''x-first-death-queue''"]
      getHeader_nonempty_iff [of "Headers del" "''x-first-death-exchange''"]
    by blast
qed

text \<open>Scenario B of the specification, as an instance of C1.\<close>

theorem C1_scenario_B:
  "prompts (fst (process lib0 (pick 0) world0 scenarioB)) =
     [(''choose an action'',
       [''republish to queue orders.retry'', ''save to file dead-letter-m1.txt'', ''discard''])]
   \<and> actions scenarioB = [actionRepublishQueue, actionSaveToFile, actionDiscard]
   \<and> options scenarioB ! 0 = label scenarioB actionRepublishQueue
   \<and> options scenarioB ! 1 = label scenarioB actionSaveToFile
   \<and> options scenarioB ! 2 = label scenarioB actionDiscard"
proof -
  have a: "actions scenarioB = [actionRepublishQueue, actionSaveToFile, actionDiscard]"
    by (simp add: actions_def choices_def scenarioB_def del0_def Let_def)
  have o: "options scenarioB =
      [''republish to queue orders.retry'', ''save to file dead-letter-m1.txt'', ''discard'']"
    by (simp add: options_def choices_def scenarioB_def del0_def filename_def Let_def)
  have p: "prompts world0 = []"
    by (simp add: world0_def)
  note t = C1_dispositions_offered [of lib0 "pick 0" world0 scenarioB]
  from t have pr: "prompts (fst (process lib0 (pick 0) world0 scenarioB)) =
     [(''choose an action'',
       [''republish to queue orders.retry'', ''save to file dead-letter-m1.txt'', ''discard''])]"
    by (simp add: o p)
  from t have al: "i < length (actions scenarioB) \<Longrightarrow>
      options scenarioB ! i = label scenarioB (actions scenarioB ! i)" for i
    by blast
  show ?thesis
    using al [of 0] al [of 1] al [of 2] by (simp add: a pr)
qed

subsection \<open>What process does with the choice\<close>

lemma process_switch:
  assumes "askRes s = Inr i" and "i < length (actions del)"
  shows "process L s ch del =
    switch L s (fst (AskOne (display L ch del) ''choose an action'' (options del) (askRes s)))
      del (actions del ! i)"
  using assms by (simp add: process_def case_prod_beta AskOne_result)

lemma switch_publishes:
  "publishes (fst (switch L s ch del a)) =
     (case a of
        actionRepublishQueue \<Rightarrow>
          publishes ch @ [('''', getHeader (Headers del) ''x-first-death-queue'', False, False,
            publishing del)]
      | actionRepublishExchange \<Rightarrow>
          publishes ch @ [(getHeader (Headers del) ''x-first-death-exchange'', RoutingKey del,
            False, False, publishing del)]
      | _ \<Rightarrow> publishes ch)"
  by (cases a) (simp_all add: Let_def case_prod_beta prim_fields split: option.splits sum.splits)

lemma switch_acks:
  "acks (fst (switch L s ch del a)) = acks ch
   \<or> acks (fst (switch L s ch del a)) = acks ch @ [(DeliveryTag del, False, ackRes s)]"
  by (cases a) (simp_all add: Let_def case_prod_beta prim_fields split: option.splits sum.splits)

lemma switch_Success:
  "snd (switch L s ch del a) = Success \<Longrightarrow>
     acks (fst (switch L s ch del a)) = acks ch @ [(DeliveryTag del, False, None)]"
  by (cases a)
    (simp_all add: Let_def case_prod_beta prim_fields Ack_result
      split: option.splits sum.splits if_splits)

lemma process_acks:
  "acks (fst (process L s ch del)) = acks ch
   \<or> acks (fst (process L s ch del)) = acks ch @ [(DeliveryTag del, False, ackRes s)]"
proof (cases "\<exists>i. askRes s = Inr i \<and> i < length (actions del)")
  case True
  then obtain i where i: "askRes s = Inr i" "i < length (actions del)" by blast
  show ?thesis
    using switch_acks [of L s
        "fst (AskOne (display L ch del) ''choose an action'' (options del) (askRes s))" del
        "actions del ! i"]
    by (simp add: process_switch [OF i] prim_fields)
next
  case False
  then show ?thesis
    by (simp add: process_def case_prod_beta AskOne_result prim_fields split: sum.splits)
qed

lemma process_Success:
  assumes "snd (process L s ch del) = Success"
  shows "acks (fst (process L s ch del)) = acks ch @ [(DeliveryTag del, False, None)]"
proof (cases "\<exists>i. askRes s = Inr i \<and> i < length (actions del)")
  case True
  then obtain i where i: "askRes s = Inr i" "i < length (actions del)" by blast
  show ?thesis
    using assms switch_Success [of L s
        "fst (AskOne (display L ch del) ''choose an action'' (options del) (askRes s))" del
        "actions del ! i"]
    by (simp add: process_switch [OF i] prim_fields)
next
  case False
  then show ?thesis
    using assms
    by (simp add: process_def case_prod_beta AskOne_result prim_fields split: sum.splits)
qed

lemma dead1_facts:
  "getHeader (Headers dead1) ''x-first-death-queue'' = ''orders''"
  "getHeader (Headers dead1) ''x-first-death-exchange'' = ''shop''"
  "RoutingKey dead1 = ''order.created''"
  "MessageId dead1 = ''m1''"
  "DeliveryTag dead1 = 3"
  "Body dead1 = ''{\"a\":1}''"
  "ContentType dead1 = ''application/json''"
  "actions dead1 =
     [actionRepublishQueue, actionRepublishExchange, actionSaveToFile, actionDiscard]"
  by (simp_all add: dead1_def del0_def actions_eq)

lemma world0_facts:
  "publishes world0 = []" "acks world0 = []" "prompts world0 = []" "openFiles world0 = []"
  "files world0 = Map.empty" "unacked world0 = []" "gets world0 = []" "dials world0 = []"
  "stdout world0 = \<lparr>wout = [], wfaults = []\<rparr>"
  by (simp_all add: world0_def)

lemma pick_facts:
  "askRes (pick i) = Inr i" "publishRes (pick i) = None" "createRes (pick i) = None"
  "fileFaults (pick i) = []" "closeRes (pick i) = None" "ackRes (pick i) = None"
  by (simp_all add: pick_def)

text \<open>
  Claim C2. The message republished for a delivery has the delivery's headers, content
  type, content encoding, delivery mode, priority, correlation id, reply-to, expiration,
  message id, time stamp, type, user id, app id and body, each unchanged. When the
  operator's choice is \<open>actionRepublishExchange\<close>, \<^verbatim>\<open>process\<close> publishes that message
  to the exchange named by \<open>x-first-death-exchange\<close> with the delivery's own routing
  key; when it is \<open>actionRepublishQueue\<close>, to the default exchange (the empty name) with
  the name in \<open>x-first-death-queue\<close> as the routing key.
\<close>

theorem C2_republish_verbatim:
  assumes "askRes s = Inr i" and "i < length (actions del)"
  shows "pub_Headers (publishing del) = Headers del
    \<and> pub_ContentType (publishing del) = ContentType del
    \<and> pub_ContentEncoding (publishing del) = ContentEncoding del
    \<and> pub_DeliveryMode (publishing del) = DeliveryMode del
    \<and> pub_Priority (publishing del) = Priority del
    \<and> pub_CorrelationId (publishing del) = CorrelationId del
    \<and> pub_ReplyTo (publishing del) = ReplyTo del
    \<and> pub_Expiration (publishing del) = Expiration del
    \<and> pub_MessageId (publishing del) = MessageId del
    \<and> pub_Timestamp (publishing del) = Timestamp del
    \<and> pub_Type (publishing del) = Type del
    \<and> pub_UserId (publishing del) = UserId del
    \<and> pub_AppId (publishing del) = AppId del
    \<and> pub_Body (publishing del) = Body del
    \<and> (actions del ! i = actionRepublishExchange \<longrightarrow>
         publishes (fst (process L s ch del)) =
           publishes ch @ [(getHeader (Headers del) ''x-first-death-exchange'', RoutingKey del,
             False, False, publishing del)])
    \<and> (actions del ! i = actionRepublishQueue \<longrightarrow>
         publishes (fst (process L s ch del)) =
           publishes ch @ [('''', getHeader (Headers del) ''x-first-death-queue'',
             False, False, publishing del)])"
proof -
  have "publishes (fst (process L s ch del)) =
      (case actions del ! i of
        actionRepublishQueue \<Rightarrow>
          publishes ch @ [('''', getHeader (Headers del) ''x-first-death-queue'', False, False,
            publishing del)]
      | actionRepublishExchange \<Rightarrow>
          publishes ch @ [(getHeader (Headers del) ''x-first-death-exchange'', RoutingKey del,
            False, False, publishing del)]
      | _ \<Rightarrow> publishes ch)"
    by (simp add: process_switch [OF assms] switch_publishes prim_fields split: action.splits)
  then show ?thesis
    by (simp add: publishing_def)
qed

text \<open>Both republish choices on a delivery with both death headers, as instances of C2.\<close>

theorem C2_republish_example:
  "publishes (fst (process lib0 (pick 0) world0 dead1)) =
     [('''', ''orders'', False, False, publishing dead1)]
   \<and> publishes (fst (process lib0 (pick 1) world0 dead1)) =
     [(''shop'', ''order.created'', False, False, publishing dead1)]
   \<and> pub_Body (publishing dead1) = ''{\"a\":1}''
   \<and> pub_Headers (publishing dead1) =
       [(''x-first-death-queue'', HString ''orders''),
        (''x-first-death-exchange'', HString ''shop''), (''x-foo'', HString ''bar'')]"
  using C2_republish_verbatim [where s = "pick 0" and i = 0 and del = dead1 and L = lib0
      and ch = world0]
    C2_republish_verbatim [where s = "pick 1" and i = 1 and del = dead1 and L = lib0
      and ch = world0]
  by (simp add: dead1_facts world0_facts pick_facts) (simp add: dead1_def del0_def)

subsection \<open>Acknowledgement\<close>

lemma Write_nofault:
  "wfaults f = [] \<Longrightarrow> Write f s = (f\<lparr>wout := wout f @ [Text s]\<rparr>, None)"
  by (simp add: Write_def)

lemma Fprintln_nofault:
  "wfaults f = [] \<Longrightarrow> Fprintln f s = (f\<lparr>wout := wout f @ [Text (s @ newline)]\<rparr>, None)"
  by (simp add: Fprintln_def Write_nofault)

lemma printProperties_nofault:
  "wfaults f = [] \<Longrightarrow>
     printProperties L f del =
       (f\<lparr>wout := wout f @ [Text (''PROPERTIES'' @ newline), PropTable (setProps L del)]\<rparr>, None)"
  by (simp add: printProperties_def Fprintln_nofault PrintProps_def)

lemma printHeaders_nofault:
  "wfaults f = [] \<Longrightarrow>
     printHeaders f del =
       (f\<lparr>wout := wout f @ [Text (''HEADERS'' @ newline), HeaderTable (headers del)]\<rparr>, None)"
  by (simp add: printHeaders_def Fprintln_nofault PrintHeaders_def)

lemma printPayload_nofault:
  "wfaults f = [] \<Longrightarrow>
     snd (printPayload L f del) = None \<and> wfaults (fst (printPayload L f del)) = []"
  by (simp add: printPayload_def Fprintln_nofault Write_nofault split: option.splits)

lemma printDelivery_nofault:
  "wfaults f = [] \<Longrightarrow> snd (printDelivery L f del) = None"
  using printPayload_nofault [of "f\<lparr>wout := wout f @ [Text (''PROPERTIES'' @ newline),
      PropTable (setProps L del), Text (''HEADERS'' @ newline), HeaderTable (headers del)]\<rparr>"
      L del]
  by (simp add: printDelivery_def printProperties_nofault printHeaders_nofault case_prod_beta
      split: option.splits)

lemma switch_all_succeed:
  assumes "publishRes s = None" "createRes s = None" "fileFaults s = []" "closeRes s = None"
    "ackRes s = None" "a = actionSaveToFile \<longrightarrow> MessageId del \<noteq> ''''"
  shows "snd (switch L s ch del a) = Success"
  using assms printDelivery_nofault [of "\<lparr>wout = [], wfaults = []\<rparr>" L del]
  by (cases a) (simp_all add: Let_def case_prod_beta prim_fields Ack_result)

lemma switch_Discard_frame:
  "publishes (fst (switch L s ch del actionDiscard)) = publishes ch"
  "files (fst (switch L s ch del actionDiscard)) = files ch"
  "openFiles (fst (switch L s ch del actionDiscard)) = openFiles ch"
  by (simp_all add: prim_fields)

text \<open>
  Claim C4. Whatever the disposition chosen, when \<^verbatim>\<open>process\<close> returns without error
  it has made exactly one call of \<^verbatim>\<open>Ack\<close>, for the tag of the delivery, not
  multiple, and that call succeeded. In every case, failed or not, it makes at most one
  such call. For \<open>actionDiscard\<close> the call of \<^verbatim>\<open>Ack\<close> is all that happens after
  the prompt: nothing is published, and no file is created, written or closed.
\<close>

theorem C4_acknowledged_once:
  "(snd (process L s ch del) = Success \<longrightarrow>
      acks (fst (process L s ch del)) = acks ch @ [(DeliveryTag del, False, None)])
   \<and> (acks (fst (process L s ch del)) = acks ch
       \<or> acks (fst (process L s ch del)) = acks ch @ [(DeliveryTag del, False, ackRes s)])
   \<and> (askRes s = Inr i \<and> i < length (actions del) \<and> actions del ! i = actionDiscard \<longrightarrow>
        process L s ch del =
          Ack (fst (AskOne (display L ch del) ''choose an action'' (options del) (askRes s)))
            (DeliveryTag del) False (ackRes s)
        \<and> publishes (fst (process L s ch del)) = publishes ch
        \<and> files (fst (process L s ch del)) = files ch
        \<and> openFiles (fst (process L s ch del)) = openFiles ch)"
proof -
  have "process L s ch del =
          Ack (fst (AskOne (display L ch del) ''choose an action'' (options del) (askRes s)))
            (DeliveryTag del) False (ackRes s)
        \<and> publishes (fst (process L s ch del)) = publishes ch
        \<and> files (fst (process L s ch del)) = files ch
        \<and> openFiles (fst (process L s ch del)) = openFiles ch"
    if "askRes s = Inr i" "i < length (actions del)" "actions del ! i = actionDiscard"
    using that by (simp add: process_switch prim_fields)
  then show ?thesis
    using process_Success [of L s ch del] process_acks [of L s ch del] by blast
qed

text \<open>
  The four dispositions of one delivery, each run with every call succeeding, as
  instances of C4.
\<close>

theorem C4_every_disposition:
  "snd (process lib0 (pick 0) world0 dead1) = Success
   \<and> acks (fst (process lib0 (pick 0) world0 dead1)) = [(3, False, None)]
   \<and> snd (process lib0 (pick 1) world0 dead1) = Success
   \<and> acks (fst (process lib0 (pick 1) world0 dead1)) = [(3, False, None)]
   \<and> snd (process lib0 (pick 2) world0 dead1) = Success
   \<and> acks (fst (process lib0 (pick 2) world0 dead1)) = [(3, False, None)]
   \<and> snd (process lib0 (pick 3) world0 dead1) = Success
   \<and> acks (fst (process lib0 (pick 3) world0 dead1)) = [(3, False, None)]
   \<and> publishes (fst (process lib0 (pick 3) world0 dead1)) = []
   \<and> files (fst (process lib0 (pick 3) world0 dead1)) = Map.empty"
proof -
  have ok: "snd (process lib0 (pick i) world0 dead1) = Success" if "i < 4" for i
    using that
    by (simp add: process_switch [where i = i] dead1_facts pick_facts switch_all_succeed)
  have ak: "acks (fst (process lib0 (pick i) world0 dead1)) = [(3, False, None)]"
    if "i < 4" for i
    using ok [OF that] C4_acknowledged_once [of lib0 "pick i" world0 dead1 3]
    by (simp add: world0_facts dead1_facts)
  have "publishes (fst (process lib0 (pick 3) world0 dead1)) = []
      \<and> files (fst (process lib0 (pick 3) world0 dead1)) = Map.empty"
    using C4_acknowledged_once [of lib0 "pick 3" world0 dead1 3]
    by (simp add: world0_facts dead1_facts pick_facts prim_fields)
  then show ?thesis
    by (simp add: ok ak)
qed

subsection \<open>Rendering\<close>

lemma filter_key_distinct:
  "distinct (map f xs) \<Longrightarrow> k \<in> set xs \<Longrightarrow> filter (\<lambda>x. f k = f x) xs = [k]"
proof (induction xs)
  case Nil
  then show ?case by simp
next
  case (Cons x xs)
  show ?case
  proof (cases "k = x")
    case True
    have "filter (\<lambda>y. f x = f y) xs = []"
      using Cons.prems(1) by (auto simp: filter_empty_conv)
    with True show ?thesis by simp
  next
    case False
    with Cons.prems have "k \<in> set xs" by simp
    moreover from this Cons.prems(1) have "f k \<noteq> f x"
      by (metis distinct.simps(2) imageI list.simps(9) list.set_map)
    ultimately show ?thesis using Cons by simp
  qed
qed

lemma sorted_rows_unique:
  assumes d: "distinct (map f xs)" and m: "mset ys = mset xs" and s: "sorted (map f ys)"
  shows "ys = sort_key f xs"
proof -
  have "mset (map f ys) = mset (map f xs)"
    using m by simp
  then have dy: "distinct (map f ys)"
    using d by (metis mset_eq_imp_distinct_iff)
  have "filter (\<lambda>x. f k = f x) ys = filter (\<lambda>x. f k = f x) xs" if "k \<in> set ys" for k
  proof -
    from that m have "k \<in> set xs"
      by (metis mset_eq_setD)
    then show ?thesis
      using that d dy by (simp add: filter_key_distinct)
  qed
  then show ?thesis
    using properties_for_sort_key [OF m _ s] by simp
qed

lemma sorted_props:
  "sort_key Name (props L del) =
     [\<lparr>Name = ''app_id'', Value = AppId del\<rparr>,
      \<lparr>Name = ''content_encoding'', Value = ContentEncoding del\<rparr>,
      \<lparr>Name = ''content_type'', Value = ContentType del\<rparr>,
      \<lparr>Name = ''correlation_id'', Value = CorrelationId del\<rparr>,
      \<lparr>Name = ''expiration'', Value = Expiration del\<rparr>,
      \<lparr>Name = ''message_id'', Value = MessageId del\<rparr>,
      \<lparr>Name = ''reply_to'', Value = ReplyTo del\<rparr>,
      \<lparr>Name = ''routing_key'', Value = RoutingKey del\<rparr>,
      \<lparr>Name = ''timestamp'', Value = timestamp L del\<rparr>,
      \<lparr>Name = ''type'', Value = Type del\<rparr>,
      \<lparr>Name = ''user_id'', Value = UserId del\<rparr>]"
  by (simp add: props_def)


lemma timestamp_empty_iff: "(timestamp L del = '''') = IsZero (Timestamp del)"
  by (simp add: timestamp_def)

lemma setProps_sorted_filter:
  "setProps L del = filter (\<lambda>p. Value p \<noteq> '''') (sort_key Name (props L del))"
  by (simp add: setProps_def filter_sort)

lemma props_names:
  "map Name (props L del) =
     [''message_id'', ''type'', ''routing_key'', ''timestamp'', ''content_type'',
      ''content_encoding'', ''correlation_id'', ''reply_to'', ''expiration'', ''user_id'',
      ''app_id'']"
  by (simp add: props_def)

lemma props_names_distinct: "distinct (map Name (props L del))"
  by (simp add: props_names)

lemma setProps_strict: "sorted_wrt (\<lambda>p q. Name p < Name q) (setProps L del)"
proof -
  have "sorted_wrt (\<lambda>p q. Name p < Name q) (sort_key Name (props L del))"
    by (simp add: sorted_props)
  then show ?thesis
    by (simp add: setProps_sorted_filter sorted_wrt_filter)
qed

lemma setProps_unique:
  assumes "mset rows = mset (filter (\<lambda>p. Value p \<noteq> '''') (props L del))"
    and "sorted (map Name rows)"
  shows "rows = setProps L del"
  unfolding setProps_def
  using assms(1) assms(2)
  by (intro sorted_rows_unique) (simp_all add: distinct_map_filter props_names_distinct)

text \<open>
  Claim C6. The rows of the PROPERTIES table are the eleven properties \<open>app_id\<close>,
  \<open>content_encoding\<close>, \<open>content_type\<close>, \<open>correlation_id\<close>, \<open>expiration\<close>,
  \<open>message_id\<close>, \<open>reply_to\<close>, \<open>routing_key\<close>, \<open>timestamp\<close>, \<open>type\<close> and
  \<open>user_id\<close>, in this order, without those whose value is empty: exactly the members
  of the fixed set with a value, in strictly increasing order of name, and the only such
  arrangement, whatever sorting algorithm is used. The value of \<open>timestamp\<close> is empty
  when the time stamp is the zero instant, and otherwise the Unix seconds in decimal, a
  space, and the RFC 3339 text in parentheses, so that the row is shown exactly when the
  time stamp is not zero. \<^verbatim>\<open>printProperties\<close> hands these rows to the table printer
  once the heading is written, and shows no row when writing the heading fails.
\<close>

theorem C6_property_rows:
  "setProps L del =
     filter (\<lambda>p. Value p \<noteq> '''')
       [\<lparr>Name = ''app_id'', Value = AppId del\<rparr>,
        \<lparr>Name = ''content_encoding'', Value = ContentEncoding del\<rparr>,
        \<lparr>Name = ''content_type'', Value = ContentType del\<rparr>,
        \<lparr>Name = ''correlation_id'', Value = CorrelationId del\<rparr>,
        \<lparr>Name = ''expiration'', Value = Expiration del\<rparr>,
        \<lparr>Name = ''message_id'', Value = MessageId del\<rparr>,
        \<lparr>Name = ''reply_to'', Value = ReplyTo del\<rparr>,
        \<lparr>Name = ''routing_key'', Value = RoutingKey del\<rparr>,
        \<lparr>Name = ''timestamp'', Value = timestamp L del\<rparr>,
        \<lparr>Name = ''type'', Value = Type del\<rparr>,
        \<lparr>Name = ''user_id'', Value = UserId del\<rparr>]
   \<and> set (setProps L del) = {p \<in> set (props L del). Value p \<noteq> ''''}
   \<and> sorted_wrt (\<lambda>p q. Name p < Name q) (setProps L del)
   \<and> (\<forall>rows. mset rows = mset (filter (\<lambda>p. Value p \<noteq> '''') (props L del))
          \<and> sorted (map Name rows) \<longrightarrow> rows = setProps L del)
   \<and> timestamp L del =
       (if IsZero (Timestamp del) then ''''
        else showInt (Unix (Timestamp del)) @ '' ('' @ Format L (Timestamp del) RFC3339 @ '')'')
   \<and> (timestamp L del = '''') = IsZero (Timestamp del)
   \<and> (\<forall>f1. Fprintln f ''PROPERTIES'' = (f1, None) \<longrightarrow>
         printProperties L f del = (f1\<lparr>wout := wout f1 @ [PropTable (setProps L del)]\<rparr>, None))
   \<and> (\<forall>f1 e. Fprintln f ''PROPERTIES'' = (f1, Some e) \<longrightarrow>
         printProperties L f del = (f1, Some e))"
proof -
  have "set (setProps L del) = {p \<in> set (props L del). Value p \<noteq> ''''}"
    by (auto simp: setProps_def)
  moreover have "\<forall>f1. Fprintln f ''PROPERTIES'' = (f1, None) \<longrightarrow>
      printProperties L f del = (f1\<lparr>wout := wout f1 @ [PropTable (setProps L del)]\<rparr>, None)"
    by (simp add: printProperties_def PrintProps_def)
  moreover have "\<forall>f1 e. Fprintln f ''PROPERTIES'' = (f1, Some e) \<longrightarrow>
      printProperties L f del = (f1, Some e)"
    by (simp add: printProperties_def)
  moreover have "setProps L del =
     filter (\<lambda>p. Value p \<noteq> '''')
       [\<lparr>Name = ''app_id'', Value = AppId del\<rparr>,
        \<lparr>Name = ''content_encoding'', Value = ContentEncoding del\<rparr>,
        \<lparr>Name = ''content_type'', Value = ContentType del\<rparr>,
        \<lparr>Name = ''correlation_id'', Value = CorrelationId del\<rparr>,
        \<lparr>Name = ''expiration'', Value = Expiration del\<rparr>,
        \<lparr>Name = ''message_id'', Value = MessageId del\<rparr>,
        \<lparr>Name = ''reply_to'', Value = ReplyTo del\<rparr>,
        \<lparr>Name = ''routing_key'', Value = RoutingKey del\<rparr>,
        \<lparr>Name = ''timestamp'', Value = timestamp L del\<rparr>,
        \<lparr>Name = ''type'', Value = Type del\<rparr>,
        \<lparr>Name = ''user_id'', Value = UserId del\<rparr>]"
    by (simp only: setProps_sorted_filter sorted_props)
  moreover have "timestamp L del =
       (if IsZero (Timestamp del) then ''''
        else showInt (Unix (Timestamp del)) @ '' ('' @ Format L (Timestamp del) RFC3339 @ '')'')"
    by (simp add: timestamp_def)
  ultimately show ?thesis
    using setProps_strict [of L del] setProps_unique [of _ L del]
      timestamp_empty_iff [of L del]
    by blast
qed

lemma showInt_example: "showInt 1614834367 = ''1614834367''"
  by (simp add: showInt_def showNat.simps char_of_def bit_0)

text \<open>
  A delivery with four properties set, a writer that fails, and the zero time stamp,
  as instances of C6.
\<close>

theorem C6_property_rows_example:
  "setProps lib0 dead1 =
     [\<lparr>Name = ''content_type'', Value = ''application/json''\<rparr>,
      \<lparr>Name = ''message_id'', Value = ''m1''\<rparr>,
      \<lparr>Name = ''routing_key'', Value = ''order.created''\<rparr>,
      \<lparr>Name = ''timestamp'', Value = ''1614834367 (2021-03-04T05:06:07Z)''\<rparr>]
   \<and> printProperties lib0 \<lparr>wout = [], wfaults = []\<rparr> dead1 =
       (\<lparr>wout = [Text (''PROPERTIES'' @ newline), PropTable (setProps lib0 dead1)],
         wfaults = []\<rparr>, None)
   \<and> printProperties lib0 \<lparr>wout = [], wfaults = [WErr ''disk full'' 4]\<rparr> dead1 =
       (\<lparr>wout = [Text ''PROP''], wfaults = []\<rparr>, Some (ExtErr ''disk full''))
   \<and> timestamp lib0 del0 = ''''"
proof -
  have ts: "timestamp lib0 dead1 = ''1614834367 (2021-03-04T05:06:07Z)''"
    by (simp add: timestamp_def dead1_def del0_def IsZero_def Unix_def unixToInternal_def
        showInt_example lib0_def)
  have z: "IsZero (Timestamp del0)"
    by (simp add: del0_def zeroTime_def IsZero_def)
  have w: "Fprintln \<lparr>wout = [], wfaults = []\<rparr> ''PROPERTIES'' =
      (\<lparr>wout = [Text (''PROPERTIES'' @ newline)], wfaults = []\<rparr>, None)"
    by (simp add: Fprintln_def Write_def)
  have w2: "Fprintln \<lparr>wout = [], wfaults = [WErr ''disk full'' 4]\<rparr> ''PROPERTIES'' =
      (\<lparr>wout = [Text ''PROP''], wfaults = []\<rparr>, Some (ExtErr ''disk full''))"
    by (simp add: Fprintln_def Write_def)
  note t = C6_property_rows [of lib0 dead1 "\<lparr>wout = [], wfaults = []\<rparr>"]
  note t2 = C6_property_rows [of lib0 dead1 "\<lparr>wout = [], wfaults = [WErr ''disk full'' 4]\<rparr>"]
  note t3 = C6_property_rows [of lib0 del0 "\<lparr>wout = [], wfaults = []\<rparr>"]
  have f: "AppId dead1 = ''''" "ContentEncoding dead1 = ''''"
    "ContentType dead1 = ''application/json''" "CorrelationId dead1 = ''''"
    "Expiration dead1 = ''''" "MessageId dead1 = ''m1''" "ReplyTo dead1 = ''''"
    "RoutingKey dead1 = ''order.created''" "Type dead1 = ''''" "UserId dead1 = ''''"
    by (simp_all add: dead1_def del0_def)
  have r: "setProps lib0 dead1 =
     [\<lparr>Name = ''content_type'', Value = ''application/json''\<rparr>,
      \<lparr>Name = ''message_id'', Value = ''m1''\<rparr>,
      \<lparr>Name = ''routing_key'', Value = ''order.created''\<rparr>,
      \<lparr>Name = ''timestamp'', Value = ''1614834367 (2021-03-04T05:06:07Z)''\<rparr>]"
    using t [THEN conjunct1] by (simp add: ts f)
  have p: "printProperties lib0 \<lparr>wout = [], wfaults = []\<rparr> dead1 =
       (\<lparr>wout = [Text (''PROPERTIES'' @ newline), PropTable (setProps lib0 dead1)],
         wfaults = []\<rparr>, None)"
    using t [THEN conjunct2, THEN conjunct2, THEN conjunct2, THEN conjunct2, THEN conjunct2,
        THEN conjunct2, THEN conjunct1, rule_format, OF w]
    by simp
  have p2: "printProperties lib0 \<lparr>wout = [], wfaults = [WErr ''disk full'' 4]\<rparr> dead1 =
       (\<lparr>wout = [Text ''PROP''], wfaults = []\<rparr>, Some (ExtErr ''disk full''))"
    using t2 [THEN conjunct2, THEN conjunct2, THEN conjunct2, THEN conjunct2, THEN conjunct2,
        THEN conjunct2, THEN conjunct2, rule_format, OF w2]
    by simp
  have e: "timestamp lib0 del0 = ''''"
    using t3 [THEN conjunct2, THEN conjunct2, THEN conjunct2, THEN conjunct2, THEN conjunct2,
        THEN conjunct1] z
    by simp
  show ?thesis
    using r p p2 e by (simp only: simp_thms)
qed

lemma Key_rows: "map Key (map (\<lambda>(k, v). \<lparr>Key = k, HValue = v\<rparr>) t) = map fst t"
  by (induction t) auto

lemma headers_unique:
  assumes "distinct (map fst (Headers del))"
    and "mset rows = mset (map (\<lambda>(k, v). \<lparr>Key = k, HValue = v\<rparr>) (Headers del))"
    and "sorted (map Key rows)"
  shows "rows = headers del"
proof -
  have "distinct (map Key (map (\<lambda>(k, v). \<lparr>Key = k, HValue = v\<rparr>) (Headers del)))"
    using assms(1) by (simp only: Key_rows)
  then show ?thesis
    unfolding headers_def using assms(2) assms(3) by (rule sorted_rows_unique)
qed

lemma headers_keys: "map Key (headers del) = sort (map fst (Headers del))"
proof -
  have "sort (map Key xs) = map Key (sort_key Key xs)" for xs :: "header list"
    by (rule properties_for_sort) simp_all
  from this [of "map (\<lambda>(k, v). \<lparr>Key = k, HValue = v\<rparr>) (Headers del)"]
  show ?thesis
    by (simp only: headers_def Key_rows)
qed

text \<open>
  Claim C7. The rows of the HEADERS table are the entries of the header table, each
  exactly once, whatever the value: as many rows as entries, none added and none dropped,
  with the keys in increasing order. As the keys of a Go map are distinct, the order is
  strict and the rows are the only arrangement of the entries that is sorted by key.
  \<^verbatim>\<open>printHeaders\<close> hands these rows to the table printer once the heading is
  written, and shows no row when writing the heading fails.
\<close>

theorem C7_header_rows:
  "mset (headers del) = mset (map (\<lambda>(k, v). \<lparr>Key = k, HValue = v\<rparr>) (Headers del))
   \<and> length (headers del) = length (Headers del)
   \<and> map Key (headers del) = sort (map fst (Headers del))
   \<and> sorted (map Key (headers del))
   \<and> (distinct (map fst (Headers del)) \<longrightarrow>
        sorted_wrt (\<lambda>a b. Key a < Key b) (headers del)
        \<and> (\<forall>rows. mset rows = mset (map (\<lambda>(k, v). \<lparr>Key = k, HValue = v\<rparr>) (Headers del))
              \<and> sorted (map Key rows) \<longrightarrow> rows = headers del))
   \<and> (\<forall>f1. Fprintln f ''HEADERS'' = (f1, None) \<longrightarrow>
         printHeaders f del = (f1\<lparr>wout := wout f1 @ [HeaderTable (headers del)]\<rparr>, None))
   \<and> (\<forall>f1 e. Fprintln f ''HEADERS'' = (f1, Some e) \<longrightarrow> printHeaders f del = (f1, Some e))"
proof -
  have m: "mset (headers del) = mset (map (\<lambda>(k, v). \<lparr>Key = k, HValue = v\<rparr>) (Headers del))"
    by (simp add: headers_def)
  have l: "length (headers del) = length (Headers del)"
    by (simp add: headers_def)
  have s: "sorted (map Key (headers del))"
    by (simp add: headers_def)
  have st: "sorted_wrt (\<lambda>a b. Key a < Key b) (headers del)"
    if "distinct (map fst (Headers del))"
  proof -
    have "distinct (map Key (headers del))"
      using that by (simp add: headers_keys)
    with s have "sorted_wrt (<) (map Key (headers del))"
      by (simp add: strict_sorted_iff)
    then show ?thesis
      by (simp add: sorted_wrt_map)
  qed
  have p: "\<forall>f1. Fprintln f ''HEADERS'' = (f1, None) \<longrightarrow>
      printHeaders f del = (f1\<lparr>wout := wout f1 @ [HeaderTable (headers del)]\<rparr>, None)"
    by (simp add: printHeaders_def PrintHeaders_def)
  have q: "\<forall>f1 e. Fprintln f ''HEADERS'' = (f1, Some e) \<longrightarrow> printHeaders f del = (f1, Some e)"
    by (simp add: printHeaders_def)
  show ?thesis
    using m l s st p q headers_keys [of del] headers_unique [of del] by blast
qed

text \<open>
  Four headers of different types, one with an empty value, as an instance of C7.
\<close>

theorem C7_header_rows_example:
  "headers (dead1\<lparr>Headers := [(''x-foo'', HString ''bar''), (''x-death'', HArray []),
       (''x-first-death-queue'', HString ''''), (''count'', HInt 2)]\<rparr>) =
     [\<lparr>Key = ''count'', HValue = HInt 2\<rparr>, \<lparr>Key = ''x-death'', HValue = HArray []\<rparr>,
      \<lparr>Key = ''x-first-death-queue'', HValue = HString ''''\<rparr>,
      \<lparr>Key = ''x-foo'', HValue = HString ''bar''\<rparr>]
   \<and> printHeaders \<lparr>wout = [], wfaults = []\<rparr> dead1 =
       (\<lparr>wout = [Text (''HEADERS'' @ newline), HeaderTable (headers dead1)],
         wfaults = []\<rparr>, None)"
proof -
  let ?d = "dead1\<lparr>Headers := [(''x-foo'', HString ''bar''), (''x-death'', HArray []),
       (''x-first-death-queue'', HString ''''), (''count'', HInt 2)]\<rparr>"
  let ?rows = "[\<lparr>Key = ''count'', HValue = HInt 2\<rparr>, \<lparr>Key = ''x-death'', HValue = HArray []\<rparr>,
      \<lparr>Key = ''x-first-death-queue'', HValue = HString ''''\<rparr>,
      \<lparr>Key = ''x-foo'', HValue = HString ''bar''\<rparr>]"
  have d: "distinct (map fst (Headers ?d))"
    by simp
  have m: "mset ?rows = mset (map (\<lambda>(k, v). \<lparr>Key = k, HValue = v\<rparr>) (Headers ?d))"
    by simp
  have s: "sorted (map Key ?rows)"
    by simp
  have w: "Fprintln \<lparr>wout = [], wfaults = []\<rparr> ''HEADERS'' =
      (\<lparr>wout = [Text (''HEADERS'' @ newline)], wfaults = []\<rparr>, None)"
    by (simp add: Fprintln_def Write_def)
  note t = C7_header_rows [of ?d "\<lparr>wout = [], wfaults = []\<rparr>"]
  note u = t [THEN conjunct2, THEN conjunct2, THEN conjunct2, THEN conjunct2, THEN conjunct1,
      rule_format, OF d, THEN conjunct2, rule_format, of ?rows]
  have r: "headers ?d = ?rows"
    using u m s by (simp only: simp_thms)
  note t' = C7_header_rows [of dead1 "\<lparr>wout = [], wfaults = []\<rparr>"]
  have p: "printHeaders \<lparr>wout = [], wfaults = []\<rparr> dead1 =
       (\<lparr>wout = [Text (''HEADERS'' @ newline), HeaderTable (headers dead1)],
         wfaults = []\<rparr>, None)"
    using t' [THEN conjunct2, THEN conjunct2, THEN conjunct2, THEN conjunct2, THEN conjunct2,
        THEN conjunct1, rule_format, OF w]
    by simp
  show ?thesis
    using r p by (simp only: simp_thms)
qed

lemma Write_ok: "Write f s = (f2, None) \<Longrightarrow> wout f2 = wout f @ [Text s]"
  by (auto simp: Write_def split: list.splits wres.splits)

text \<open>
  Claim C3. With the content type \<open>application/json\<close> and a body that does not parse,
  \<^verbatim>\<open>printPayload\<close> does the write of the heading and nothing else, and returns what
  that write returns. Once the heading is written: with that content type and a body that
  parses, the output is what the encoder with no prefix and two spaces of indentation
  writes for the value; with that content type and a body that does not parse, nothing
  more is written and \<^verbatim>\<open>nil\<close> is returned; with any other content type, the empty
  one included, the body is written followed by a line break. The claim is read for a
  writer that accepts the writes concerned.
\<close>

theorem C3_payload_rendering:
  "(ContentType del = ''application/json'' \<and> Unmarshal L (Body del) = None \<longrightarrow>
      printPayload L f del = Fprintln f ''PAYLOAD'')
   \<and> (\<forall>f1. Fprintln f ''PAYLOAD'' = (f1, None) \<longrightarrow>
        (\<forall>v f2. ContentType del = ''application/json'' \<and> Unmarshal L (Body del) = Some v
             \<and> Write f1 (Encode L '''' ''  '' v) = (f2, None) \<longrightarrow>
           printPayload L f del = (f2, None)
           \<and> wout f2 = wout f1 @ [Text (Encode L '''' ''  '' v)])
        \<and> (ContentType del = ''application/json'' \<and> Unmarshal L (Body del) = None \<longrightarrow>
             printPayload L f del = (f1, None))
        \<and> (ContentType del \<noteq> ''application/json'' \<longrightarrow>
             printPayload L f del = Fprintln f1 (Body del)
             \<and> (\<forall>f2. Fprintln f1 (Body del) = (f2, None) \<longrightarrow>
                   wout f2 = wout f1 @ [Text (Body del @ newline)])))"
proof -
  have a: "printPayload L f del = Fprintln f ''PAYLOAD''"
    if "ContentType del = ''application/json''" "Unmarshal L (Body del) = None"
    using that by (simp add: printPayload_def split: prod.splits option.splits)
  have b: "printPayload L f del = (f2, None) \<and> wout f2 = wout f1 @ [Text (Encode L '''' ''  '' v)]"
    if "Fprintln f ''PAYLOAD'' = (f1, None)" "ContentType del = ''application/json''"
      "Unmarshal L (Body del) = Some v" "Write f1 (Encode L '''' ''  '' v) = (f2, None)"
    for f1 f2 v
    using that by (simp add: printPayload_def Write_ok)
  have c: "printPayload L f del = (f1, None)"
    if "Fprintln f ''PAYLOAD'' = (f1, None)" "ContentType del = ''application/json''"
      "Unmarshal L (Body del) = None" for f1
    using that by (simp add: printPayload_def)
  have d: "printPayload L f del = Fprintln f1 (Body del)"
    if "Fprintln f ''PAYLOAD'' = (f1, None)" "ContentType del \<noteq> ''application/json''" for f1
    using that by (simp add: printPayload_def)
  have e: "wout f2 = wout f1 @ [Text (Body del @ newline)]"
    if "Fprintln f1 (Body del) = (f2, None)" for f1 f2
    using that by (simp add: Fprintln_def Write_ok)
  show ?thesis
    using a b c d e by blast
qed

text \<open>
  A JSON body, a body that is not JSON under the JSON content type, and a body with
  no content type, as instances of C3.
\<close>

theorem C3_payload_rendering_example:
  "printPayload lib0 \<lparr>wout = [], wfaults = []\<rparr> dead1 =
     (\<lparr>wout = [Text (''PAYLOAD'' @ newline),
               Text (''{'' @ newline @ ''  \"a\": 1'' @ newline @ ''}'' @ newline)],
       wfaults = []\<rparr>, None)
   \<and> printPayload lib0 \<lparr>wout = [], wfaults = []\<rparr> (dead1\<lparr>Body := ''{broken''\<rparr>) =
     (\<lparr>wout = [Text (''PAYLOAD'' @ newline)], wfaults = []\<rparr>, None)
   \<and> printPayload lib0 \<lparr>wout = [], wfaults = []\<rparr> (del0\<lparr>Body := ''hello''\<rparr>) =
     (\<lparr>wout = [Text (''PAYLOAD'' @ newline), Text (''hello'' @ newline)], wfaults = []\<rparr>, None)"
proof -
  let ?f = "\<lparr>wout = [], wfaults = []\<rparr>"
  let ?f1 = "\<lparr>wout = [Text (''PAYLOAD'' @ newline)], wfaults = []\<rparr>"
  let ?bad = "dead1\<lparr>Body := ''{broken''\<rparr>"
  let ?txt = "del0\<lparr>Body := ''hello''\<rparr>"
  have w: "Fprintln ?f ''PAYLOAD'' = (?f1, None)"
    by (simp add: Fprintln_def Write_def)
  have j: "ContentType dead1 = ''application/json''"
    "Unmarshal lib0 (Body dead1) = Some ''\"a\": 1''"
    "ContentType ?bad = ''application/json''" "Unmarshal lib0 (Body ?bad) = None"
    "ContentType ?txt \<noteq> ''application/json''" "Body ?txt = ''hello''"
    by (simp_all add: dead1_def del0_def lib0_def)
  have enc: "Encode lib0 '''' ''  '' ''\"a\": 1'' =
      ''{'' @ newline @ ''  \"a\": 1'' @ newline @ ''}'' @ newline"
    by (simp add: lib0_def)
  have w2: "Write ?f1 (Encode lib0 '''' ''  '' ''\"a\": 1'') =
      (\<lparr>wout = [Text (''PAYLOAD'' @ newline),
                Text (''{'' @ newline @ ''  \"a\": 1'' @ newline @ ''}'' @ newline)],
        wfaults = []\<rparr>, None)"
    by (simp add: enc Write_def)
  have w3: "Fprintln ?f1 ''hello'' =
      (\<lparr>wout = [Text (''PAYLOAD'' @ newline), Text (''hello'' @ newline)], wfaults = []\<rparr>, None)"
    by (simp add: Fprintln_def Write_def)
  note ok = C3_payload_rendering [of dead1 lib0 ?f, THEN conjunct2, rule_format, OF w,
      THEN conjunct1, rule_format, OF conjI [OF j(1) conjI [OF j(2) w2]], THEN conjunct1]
  note bad = C3_payload_rendering [of ?bad lib0 ?f, THEN conjunct2, rule_format, OF w,
      THEN conjunct2, THEN conjunct1, rule_format, OF conjI [OF j(3) j(4)]]
  note plain = C3_payload_rendering [of ?txt lib0 ?f, THEN conjunct2, rule_format, OF w,
      THEN conjunct2, THEN conjunct2, rule_format, OF j(5), THEN conjunct1]
  show ?thesis
    using ok bad plain by (simp only: j(6) w3 simp_thms)
qed

subsection \<open>Death headers that are not strings\<close>

text \<open>
  Claim C9. When the header table has an entry for a key whose value is not a string,
  \<^verbatim>\<open>getHeader\<close> returns the empty string for that key, as it does for the table
  without the entry. For \<open>x-first-death-queue\<close> the republish-to-queue action is then
  not offered, for \<open>x-first-death-exchange\<close> the republish-to-exchange action is not,
  and for either key the options and actions are those of the same delivery without
  that header.
\<close>

theorem C9_non_string_death_header:
  assumes "map_of (Headers del) key = Some v" and "\<forall>s. v \<noteq> HString s"
  shows "getHeader (Headers del) key = ''''
    \<and> getHeader (Headers del) key = getHeader (filter (\<lambda>(k, v). k \<noteq> key) (Headers del)) key
    \<and> (key = ''x-first-death-queue'' \<longrightarrow> actionRepublishQueue \<notin> set (actions del))
    \<and> (key = ''x-first-death-exchange'' \<longrightarrow> actionRepublishExchange \<notin> set (actions del))
    \<and> (key = ''x-first-death-queue'' \<or> key = ''x-first-death-exchange'' \<longrightarrow>
         choices del = choices (del\<lparr>Headers := filter (\<lambda>(k, v). k \<noteq> key) (Headers del)\<rparr>))"
proof -
  have e: "getHeader (Headers del) key = ''''"
    using assms by (rule getHeader_not_string)
  have "actionRepublishQueue \<notin> set (actions del)" if "key = ''x-first-death-queue''"
    using e that by (simp add: actions_eq)
  moreover have "actionRepublishExchange \<notin> set (actions del)"
    if "key = ''x-first-death-exchange''"
    using e that by (simp add: actions_eq)
  moreover have
    "choices del = choices (del\<lparr>Headers := filter (\<lambda>(k, v). k \<noteq> key) (Headers del)\<rparr>)"
    if "key = ''x-first-death-queue'' \<or> key = ''x-first-death-exchange''"
    using e that by (auto simp: choices_def Let_def getHeader_removed filename_def)
  ultimately show ?thesis
    using e by (simp add: getHeader_removed)
qed

text \<open>
  A delivery whose \<open>x-first-death-queue\<close> header is the number 5, and one whose
  \<open>x-first-death-exchange\<close> header is a boolean, as instances of C9.
\<close>

theorem C9_number_in_queue_header:
  "getHeader (Headers oddHeader) ''x-first-death-queue'' = ''''
   \<and> actions oddHeader = [actionDiscard]
   \<and> options oddHeader = [''discard'']
   \<and> choices oddHeader = choices (oddHeader\<lparr>Headers := []\<rparr>)
   \<and> getHeader (Headers oddExchange) ''x-first-death-exchange'' = ''''
   \<and> actionRepublishExchange \<notin> set (actions oddExchange)
   \<and> choices oddExchange =
       choices (oddExchange\<lparr>Headers := [(''x-first-death-queue'', HString ''orders'')]\<rparr>)"
proof -
  have m: "map_of (Headers oddHeader) ''x-first-death-queue'' = Some (HInt 5)"
    by (simp add: oddHeader_def del0_def)
  have n: "\<forall>s. HInt 5 \<noteq> HString s"
    by simp
  have f: "filter (\<lambda>(k, v). k \<noteq> ''x-first-death-queue'') (Headers oddHeader) = []"
    by (simp add: oddHeader_def del0_def)
  note t = C9_non_string_death_header [OF m n]
  have a: "actions oddHeader = [actionDiscard]"
    using t [THEN conjunct1] by (simp add: actions_eq) (simp add: oddHeader_def del0_def)
  have c: "choices oddHeader = choices (oddHeader\<lparr>Headers := []\<rparr>)"
    using t [THEN conjunct2, THEN conjunct2, THEN conjunct2, THEN conjunct2] by (simp add: f)
  have o: "options oddHeader = [''discard'']"
    by (simp add: options_eq a label_def)
  have m': "map_of (Headers oddExchange) ''x-first-death-exchange'' = Some (HBool True)"
    by (simp add: oddExchange_def del0_def)
  have n': "\<forall>s. HBool True \<noteq> HString s"
    by simp
  have f': "filter (\<lambda>(k, v). k \<noteq> ''x-first-death-exchange'') (Headers oddExchange) =
      [(''x-first-death-queue'', HString ''orders'')]"
    by (simp add: oddExchange_def del0_def)
  note t' = C9_non_string_death_header [OF m' n']
  have x: "actionRepublishExchange \<notin> set (actions oddExchange)"
    using t' [THEN conjunct2, THEN conjunct2, THEN conjunct2, THEN conjunct1] by simp
  have c': "choices oddExchange =
      choices (oddExchange\<lparr>Headers := [(''x-first-death-queue'', HString ''orders'')]\<rparr>)"
    using t' [THEN conjunct2, THEN conjunct2, THEN conjunct2, THEN conjunct2]
    by (simp add: f')
  show ?thesis
    using t [THEN conjunct1] t' [THEN conjunct1] a o c x c' by (simp only: simp_thms)
qed

subsection \<open>Failures while saving to a file\<close>



lemma switch_save_close_fails:
  assumes "MessageId del \<noteq> ''''" and "createRes s = None"
    and "printDelivery L \<lparr>wout = [], wfaults = fileFaults s\<rparr> del = (f, None)"
    and "closeRes s = Some msg"
  shows "switch L s ch del actionSaveToFile =
    (fst (Close (written (fst (Create ch (filename del) None (fileFaults s))) (filename del) f)
       (filename del) (Some msg)), Failed (ExtErr msg))"
  using assms by (simp add: case_prod_beta prim_fields)





subsection \<open>The loop\<close>

lemma Get_fields:
  "stdout (fst (Get ch q a r)) = stdout ch"
  "files (fst (Get ch q a r)) = files ch"
  "openFiles (fst (Get ch q a r)) = openFiles ch"
  "prompts (fst (Get ch q a r)) = prompts ch"
  "dials (fst (Get ch q a r)) = dials ch"
  "channels (fst (Get ch q a r)) = channels ch"
  "publishes (fst (Get ch q a r)) = publishes ch"
  "acks (fst (Get ch q a r)) = acks ch"
  "gets (fst (Get ch q a r)) = gets ch @ [(q, a)]"
  by (simp_all add: Get_def Let_def split: sum.splits option.splits)

lemma Get_result:
  "snd (Get ch q a r) = (case r of Inl msg \<Rightarrow> Inl (ExtErr msg) | Inr m \<Rightarrow> Inr m)"
  by (simp add: Get_def Let_def split: sum.splits option.splits)

lemma Get_unacked:
  "unacked (fst (Get ch q False r)) =
     (case r of Inr (Some del) \<Rightarrow> unacked ch @ [DeliveryTag del] | _ \<Rightarrow> unacked ch)"
  by (simp add: Get_def Let_def split: sum.splits option.splits)

lemma switch_frame:
  "gets (fst (switch L s ch del a)) = gets ch"
  "dials (fst (switch L s ch del a)) = dials ch"
  "channels (fst (switch L s ch del a)) = channels ch"
  by (cases a; simp add: Let_def case_prod_beta prim_fields split: option.splits sum.splits)+

lemma switch_unacked:
  "unacked (fst (switch L s ch del a)) =
     (if snd (switch L s ch del a) = Success then remove1 (DeliveryTag del) (unacked ch)
      else unacked ch)"
  by (cases a)
    (simp_all add: Let_def case_prod_beta prim_fields Ack_unacked Ack_result
      split: option.splits sum.splits)

lemma process_frame:
  "gets (fst (process L s ch del)) = gets ch"
  "dials (fst (process L s ch del)) = dials ch"
  "channels (fst (process L s ch del)) = channels ch"
  by (simp_all add: process_def case_prod_beta AskOne_result prim_fields switch_frame
      split: sum.splits)

lemma process_unacked:
  "unacked (fst (process L s ch del)) =
     (if snd (process L s ch del) = Success then remove1 (DeliveryTag del) (unacked ch)
      else unacked ch)"
  by (simp add: process_def case_prod_beta AskOne_result prim_fields switch_unacked
      split: sum.splits)

lemma workTurn_cancelled: "cancelled t \<Longrightarrow> workTurn L t ch queue = (ch, Stopped Success)"
  by (simp add: workTurn_def)

lemma workTurn_empty:
  "\<not> cancelled t \<Longrightarrow> getRes t = Inr None \<Longrightarrow>
     workTurn L t ch queue =
       (Println (fst (Get ch queue False (getRes t))) ''no messages left'', Stopped Success)"
  by (simp add: workTurn_def case_prod_beta Get_result)

lemma workTurn_get_fails:
  "\<not> cancelled t \<Longrightarrow> getRes t = Inl msg \<Longrightarrow>
     workTurn L t ch queue =
       (fst (Get ch queue False (getRes t)), Stopped (Failed (ExtErr msg)))"
  by (simp add: workTurn_def case_prod_beta Get_result)

lemma workTurn_message:
  "\<not> cancelled t \<Longrightarrow> getRes t = Inr (Some del) \<Longrightarrow>
     workTurn L t ch queue =
       (fst (process L (turnScript t) (fst (Get ch queue False (getRes t))) del),
        case snd (process L (turnScript t) (fst (Get ch queue False (getRes t))) del) of
          Success \<Rightarrow> Running | r \<Rightarrow> Stopped r)"
  by (simp add: workTurn_def case_prod_beta Get_result split: result.splits)

lemma workTurn_cases:
  obtains "cancelled t"
  | "\<not> cancelled t" "getRes t = Inr None"
  | msg where "\<not> cancelled t" "getRes t = Inl msg"
  | del where "\<not> cancelled t" "getRes t = Inr (Some del)"
  by (cases "getRes t"; cases "cancelled t"; auto)

lemma workTurn_gets:
  "\<not> cancelled t \<Longrightarrow> gets (fst (workTurn L t ch queue)) = gets ch @ [(queue, False)]"
  by (rule workTurn_cases [of t])
    (simp_all add: workTurn_empty workTurn_get_fails workTurn_message Println_fields Get_fields
      process_frame)

lemma workTurn_dials:
  "dials (fst (workTurn L t ch queue)) = dials ch"
  by (rule workTurn_cases [of t])
    (simp_all add: workTurn_cancelled workTurn_empty workTurn_get_fails workTurn_message
      Println_fields Get_fields process_frame)

lemma workTurn_unacked:
  assumes "unacked ch = []"
  shows "length (unacked (fst (workTurn L t ch queue))) \<le> 1
    \<and> (snd (workTurn L t ch queue) = Running \<or> snd (workTurn L t ch queue) = Stopped Success
        \<longrightarrow> unacked (fst (workTurn L t ch queue)) = [])"
  using assms
  by (rule_tac workTurn_cases [of t])
    (simp_all add: workTurn_cancelled workTurn_empty workTurn_get_fails workTurn_message
      Println_fields Get_unacked process_unacked split: result.splits)

lemma work_Cons:
  "work L (t # ctx) ch queue =
     (if snd (workTurn L t ch queue) = Running
      then work L ctx (fst (workTurn L t ch queue)) queue
      else workTurn L t ch queue)"
  by (cases "workTurn L t ch queue") (auto split: lstate.splits)

declare work.simps(2) [simp del]

lemma work_unacked:
  "unacked ch = [] \<Longrightarrow>
     length (unacked (fst (work L ctx ch queue))) \<le> 1
     \<and> (snd (work L ctx ch queue) = Running \<or> snd (work L ctx ch queue) = Stopped Success
         \<longrightarrow> unacked (fst (work L ctx ch queue)) = [])"
proof (induction ctx arbitrary: ch)
  case Nil
  then show ?case by simp
next
  case (Cons t ctx)
  note turn = workTurn_unacked [OF Cons.prems, of L t queue]
  show ?case
  proof (cases "snd (workTurn L t ch queue) = Running")
    case True
    with turn have "unacked (fst (workTurn L t ch queue)) = []" by simp
    from Cons.IH [OF this] True show ?thesis
      by (simp add: work_Cons)
  next
    case False
    with turn show ?thesis
      by (simp add: work_Cons)
  qed
qed

lemma work_gets:
  "\<exists>n \<le> length ctx. gets (fst (work L ctx ch queue)) = gets ch @ replicate n (queue, False)"
proof (induction ctx arbitrary: ch)
  case Nil
  then show ?case by simp
next
  case (Cons t ctx)
  have one: "gets (fst (workTurn L t ch queue)) = gets ch
      \<or> gets (fst (workTurn L t ch queue)) = gets ch @ replicate 1 (queue, False)"
    using workTurn_gets [of t L ch queue] workTurn_cancelled [of t L ch queue]
    by (cases "cancelled t") simp_all
  show ?case
  proof (cases "snd (workTurn L t ch queue) = Running")
    case True
    from Cons.IH [of "fst (workTurn L t ch queue)"] obtain n where
      n: "n \<le> length ctx"
        "gets (fst (work L ctx (fst (workTurn L t ch queue)) queue)) =
           gets (fst (workTurn L t ch queue)) @ replicate n (queue, False)"
      by blast
    from one show ?thesis
    proof
      assume "gets (fst (workTurn L t ch queue)) = gets ch"
      with n True show ?thesis
        by (intro exI [of _ n]) (simp add: work_Cons)
    next
      assume "gets (fst (workTurn L t ch queue)) = gets ch @ replicate 1 (queue, False)"
      with n True show ?thesis
        by (intro exI [of _ "Suc n"]) (simp add: work_Cons replicate_app_Cons_same)
    qed
  next
    case False
    from one show ?thesis
    proof
      assume "gets (fst (workTurn L t ch queue)) = gets ch"
      with False show ?thesis
        by (intro exI [of _ 0]) (simp add: work_Cons)
    next
      assume "gets (fst (workTurn L t ch queue)) = gets ch @ replicate 1 (queue, False)"
      with False show ?thesis
        by (intro exI [of _ 1]) (simp add: work_Cons)
    qed
  qed
qed

lemma work_dials: "dials (fst (work L ctx ch queue)) = dials ch"
proof (induction ctx arbitrary: ch)
  case Nil
  then show ?case by simp
next
  case (Cons t ctx)
  show ?case
    using Cons.IH [of "fst (workTurn L t ch queue)"]
    by (simp add: work_Cons workTurn_dials)
qed

text \<open>
  Claim C5. Before its first turn the loop of \<^verbatim>\<open>work\<close> is running, and it goes on
  to the next turn exactly when a turn leaves it running; a turn that stops it is final.
  A turn first looks at the cancellation signal and, if it is set, stops with \<^verbatim>\<open>nil\<close>
  and does nothing else. Otherwise it makes exactly one call of \<^verbatim>\<open>Get\<close>, on the
  queue, without auto-acknowledgement: with no message it prints \<open>no messages left\<close>
  and stops with \<^verbatim>\<open>nil\<close>; when \<^verbatim>\<open>Get\<close> fails it stops with that error; with a
  message it runs \<^verbatim>\<open>process\<close>, stops with the error of \<^verbatim>\<open>process\<close> if there is
  one, and stays running after success. So a run of the loop makes at most one fetch per
  turn, and, started with nothing unacknowledged, it never has more than one delivery
  unacknowledged and has none whenever it is about to start a turn or has stopped with
  \<^verbatim>\<open>nil\<close>.
\<close>

theorem C5_triage_loop:
  "work L [] ch queue = (ch, Running)
   \<and> work L (t # ctx) ch queue =
       (if snd (workTurn L t ch queue) = Running
        then work L ctx (fst (workTurn L t ch queue)) queue
        else workTurn L t ch queue)
   \<and> (cancelled t \<longrightarrow> workTurn L t ch queue = (ch, Stopped Success))
   \<and> (\<not> cancelled t \<longrightarrow>
        gets (fst (workTurn L t ch queue)) = gets ch @ [(queue, False)])
   \<and> (\<not> cancelled t \<and> getRes t = Inr None \<longrightarrow>
        workTurn L t ch queue =
          (Println (fst (Get ch queue False (getRes t))) ''no messages left'', Stopped Success))
   \<and> (\<forall>msg. \<not> cancelled t \<and> getRes t = Inl msg \<longrightarrow>
        snd (workTurn L t ch queue) = Stopped (Failed (ExtErr msg)))
   \<and> (\<forall>del. \<not> cancelled t \<and> getRes t = Inr (Some del) \<longrightarrow>
        fst (workTurn L t ch queue) =
          fst (process L (turnScript t) (fst (Get ch queue False (getRes t))) del)
        \<and> (\<forall>e. snd (process L (turnScript t) (fst (Get ch queue False (getRes t))) del)
                 = Failed e \<longrightarrow>
               snd (workTurn L t ch queue) = Stopped (Failed e))
        \<and> (snd (process L (turnScript t) (fst (Get ch queue False (getRes t))) del) = Success
              \<longrightarrow> snd (workTurn L t ch queue) = Running))
   \<and> (\<exists>n \<le> length ctx.
        gets (fst (work L ctx ch queue)) = gets ch @ replicate n (queue, False))
   \<and> (unacked ch = [] \<longrightarrow>
        length (unacked (fst (work L ctx ch queue))) \<le> 1
        \<and> (snd (work L ctx ch queue) = Running \<or> snd (work L ctx ch queue) = Stopped Success
            \<longrightarrow> unacked (fst (work L ctx ch queue)) = []))"
proof -
  have m: "fst (workTurn L t ch queue) =
          fst (process L (turnScript t) (fst (Get ch queue False (getRes t))) del)
        \<and> (\<forall>e. snd (process L (turnScript t) (fst (Get ch queue False (getRes t))) del)
                 = Failed e \<longrightarrow>
               snd (workTurn L t ch queue) = Stopped (Failed e))
        \<and> (snd (process L (turnScript t) (fst (Get ch queue False (getRes t))) del) = Success
              \<longrightarrow> snd (workTurn L t ch queue) = Running)"
    if "\<not> cancelled t" "getRes t = Inr (Some del)" for del
    by (simp add: workTurn_message [OF that])
  have f: "snd (workTurn L t ch queue) = Stopped (Failed (ExtErr msg))"
    if "\<not> cancelled t" "getRes t = Inl msg" for msg
    by (simp add: workTurn_get_fails [OF that])
  have n: "work L [] ch queue = (ch, Running)"
    by simp
  show ?thesis
    using n m f work_Cons [of L t ctx ch queue] workTurn_cancelled [of t L ch queue]
      workTurn_gets [of t L ch queue] workTurn_empty [of t L ch queue]
      work_gets [of ctx L ch queue] work_unacked [of ch L ctx queue]
    by blast
qed

lemma turn_facts:
  "cancelled interrupted" "\<not> cancelled drained" "getRes drained = Inr None"
  "\<not> cancelled getFails" "getRes getFails = Inl ''connection reset''"
  "\<not> cancelled (deliver del s)" "getRes (deliver del s) = Inr (Some del)"
  "turnScript (deliver del s) = s"
  by (simp_all add: interrupted_def drained_def getFails_def deliver_def)

lemma process_dead1_discard:
  "snd (process lib0 (pick 3) ch dead1) = Success"
  by (simp add: process_switch [where i = 3] dead1_facts pick_facts Ack_result)

lemma process_dead1_closeFails:
  "snd (process lib0 closeFails ch dead1) = Failed (ExtErr ''input/output error'')"
proof -
  have s: "askRes closeFails = Inr 2" "createRes closeFails = None"
    "closeRes closeFails = Some ''input/output error''" "fileFaults closeFails = []"
    by (simp_all add: closeFails_def pick_def)
  have p: "printDelivery lib0 \<lparr>wout = [], wfaults = fileFaults closeFails\<rparr> dead1 =
      (fst (printDelivery lib0 \<lparr>wout = [], wfaults = []\<rparr> dead1), None)"
    using printDelivery_nofault [of "\<lparr>wout = [], wfaults = []\<rparr>" lib0 dead1]
    by (simp add: s prod_eq_iff)
  have sw: "process lib0 closeFails ch dead1 =
      switch lib0 closeFails
        (fst (AskOne (display lib0 ch dead1) ''choose an action'' (options dead1)
           (askRes closeFails))) dead1 actionSaveToFile"
    using process_switch [OF s(1), of dead1 lib0 ch] by (simp add: dead1_facts)
  have id: "MessageId dead1 \<noteq> ''''"
    by (simp add: dead1_facts)
  show ?thesis
    by (simp only: sw switch_save_close_fails [OF id s(2) p s(3)] snd_conv)
qed

text \<open>
  An interrupt, a discard followed by an empty queue, a failing fetch and a failing
  save, as instances of C5.
\<close>

theorem C5_triage_loop_example:
  "work lib0 [interrupted, deliver dead1 (pick 3)] world0 ''DL'' = (world0, Stopped Success)
   \<and> snd (work lib0 [deliver dead1 (pick 3), drained] world0 ''DL'') = Stopped Success
   \<and> gets (fst (work lib0 [deliver dead1 (pick 3), drained] world0 ''DL'')) =
       [(''DL'', False), (''DL'', False)]
   \<and> unacked (fst (work lib0 [deliver dead1 (pick 3), drained] world0 ''DL'')) = []
   \<and> snd (work lib0 [getFails, drained] world0 ''DL'') =
       Stopped (Failed (ExtErr ''connection reset''))
   \<and> snd (work lib0 [deliver dead1 closeFails, drained] world0 ''DL'') =
       Stopped (Failed (ExtErr ''input/output error''))"
proof -
  let ?d = "deliver dead1 (pick 3)"
  let ?c = "deliver dead1 closeFails"
  let ?w1 = "fst (workTurn lib0 ?d world0 ''DL'')"
  \<comment> \<open>the operator has interrupted\<close>
  note i = C5_triage_loop [of lib0 world0 "''DL''" interrupted "[?d]"]
  have a: "work lib0 [interrupted, ?d] world0 ''DL'' = (world0, Stopped Success)"
    using i [THEN conjunct2, THEN conjunct1]
      i [THEN conjunct2, THEN conjunct2, THEN conjunct1, rule_format, OF turn_facts(1)]
    by simp
  \<comment> \<open>a message is discarded, then the queue is empty\<close>
  note d = C5_triage_loop [of lib0 world0 "''DL''" ?d "[drained]"]
  note d7 = d [THEN conjunct2, THEN conjunct2, THEN conjunct2, THEN conjunct2, THEN conjunct2,
      THEN conjunct2, THEN conjunct1, rule_format, OF conjI [OF turn_facts(6) turn_facts(7)]]
  have r1: "snd (workTurn lib0 ?d world0 ''DL'') = Running"
    using d7 [THEN conjunct2, THEN conjunct2] by (simp add: turn_facts process_dead1_discard)
  have g1: "gets ?w1 = [(''DL'', False)]"
    using d [THEN conjunct2, THEN conjunct2, THEN conjunct2, THEN conjunct1, rule_format,
        OF turn_facts(6)]
    by (simp add: world0_facts)
  have s1: "work lib0 [?d, drained] world0 ''DL'' = work lib0 [drained] ?w1 ''DL''"
    using d [THEN conjunct2, THEN conjunct1] r1 by simp
  note e = C5_triage_loop [of lib0 ?w1 "''DL''" drained "[]"]
  have t2: "workTurn lib0 drained ?w1 ''DL'' =
      (Println (fst (Get ?w1 ''DL'' False (getRes drained))) ''no messages left'',
       Stopped Success)"
    using e [THEN conjunct2, THEN conjunct2, THEN conjunct2, THEN conjunct2, THEN conjunct1,
        rule_format, OF conjI [OF turn_facts(2) turn_facts(3)]] .
  have s2: "work lib0 [drained] ?w1 ''DL'' = workTurn lib0 drained ?w1 ''DL''"
    using e [THEN conjunct2, THEN conjunct1] t2 by simp
  have b: "snd (work lib0 [?d, drained] world0 ''DL'') = Stopped Success"
    by (simp add: s1 s2 t2)
  have g: "gets (fst (work lib0 [?d, drained] world0 ''DL'')) =
      [(''DL'', False), (''DL'', False)]"
    using e [THEN conjunct2, THEN conjunct2, THEN conjunct2, THEN conjunct1, rule_format,
        OF turn_facts(2)]
    by (simp add: s1 s2 g1)
  note u = C5_triage_loop [of lib0 world0 "''DL''" ?d "[?d, drained]"]
  have c: "unacked (fst (work lib0 [?d, drained] world0 ''DL'')) = []"
    using u [THEN conjunct2, THEN conjunct2, THEN conjunct2, THEN conjunct2, THEN conjunct2,
        THEN conjunct2, THEN conjunct2, THEN conjunct2, rule_format, OF world0_facts(6),
        THEN conjunct2] b
    by simp
  \<comment> \<open>the fetch fails\<close>
  note f = C5_triage_loop [of lib0 world0 "''DL''" getFails "[drained]"]
  have f6: "snd (workTurn lib0 getFails world0 ''DL'') =
      Stopped (Failed (ExtErr ''connection reset''))"
    using f [THEN conjunct2, THEN conjunct2, THEN conjunct2, THEN conjunct2, THEN conjunct2,
        THEN conjunct1, rule_format, OF conjI [OF turn_facts(4) turn_facts(5)]] .
  have ff: "snd (work lib0 [getFails, drained] world0 ''DL'') =
      Stopped (Failed (ExtErr ''connection reset''))"
    using f [THEN conjunct2, THEN conjunct1] f6 by simp
  \<comment> \<open>processing the message fails\<close>
  note p = C5_triage_loop [of lib0 world0 "''DL''" ?c "[drained]"]
  note p7 = p [THEN conjunct2, THEN conjunct2, THEN conjunct2, THEN conjunct2, THEN conjunct2,
      THEN conjunct2, THEN conjunct1, rule_format, OF conjI [OF turn_facts(6) turn_facts(7)]]
  have p1: "snd (workTurn lib0 ?c world0 ''DL'') =
      Stopped (Failed (ExtErr ''input/output error''))"
    using p7 [THEN conjunct2, THEN conjunct1, rule_format,
        of "ExtErr ''input/output error''"]
    by (simp add: turn_facts process_dead1_closeFails)
  have pp: "snd (work lib0 [?c, drained] world0 ''DL'') =
      Stopped (Failed (ExtErr ''input/output error''))"
    using p [THEN conjunct2, THEN conjunct1] p1 by simp
  show ?thesis
    using a b g c ff pp by (simp only: simp_thms)
qed

subsection \<open>The entry point\<close>

lemma Write_err: "Write f s = (f1, Some e) \<Longrightarrow> e \<noteq> errUsage"
  by (auto simp: Write_def split: list.splits wres.splits)

lemma Fprintln_err: "Fprintln f s = (f1, Some e) \<Longrightarrow> e \<noteq> errUsage"
  by (auto simp: Fprintln_def dest: Write_err)

lemma printProperties_err: "printProperties L f del = (f1, Some e) \<Longrightarrow> e \<noteq> errUsage"
  by (auto simp: printProperties_def split: prod.splits option.splits dest: Fprintln_err)

lemma printHeaders_err: "printHeaders f del = (f1, Some e) \<Longrightarrow> e \<noteq> errUsage"
  by (auto simp: printHeaders_def split: prod.splits option.splits dest: Fprintln_err)

lemma printPayload_err: "printPayload L f del = (f1, Some e) \<Longrightarrow> e \<noteq> errUsage"
  by (auto simp: printPayload_def split: prod.splits option.splits if_splits
      dest: Fprintln_err Write_err)

lemma printDelivery_err: "printDelivery L f del = (f1, Some e) \<Longrightarrow> e \<noteq> errUsage"
  by (auto simp: printDelivery_def split: prod.splits option.splits
      dest: printProperties_err printHeaders_err printPayload_err)

lemma printDelivery_err': "snd (printDelivery L f del) \<noteq> Some errUsage"
  using printDelivery_err [of L f del "fst (printDelivery L f del)" errUsage]
  by (auto simp: prod_eq_iff)

lemma switch_not_usage: "snd (switch L s ch del a) \<noteq> Failed errUsage"
  using printDelivery_err' [of L "\<lparr>wout = [], wfaults = fileFaults s\<rparr>" del]
  by (cases a)
    (auto simp: Let_def case_prod_beta prim_fields Ack_result
      split: option.splits sum.splits)

lemma process_not_usage: "snd (process L s ch del) \<noteq> Failed errUsage"
  by (simp add: process_def case_prod_beta AskOne_result switch_not_usage split: sum.splits)

lemma process_Failed_not_usage: "snd (process L s ch del) = Failed e \<Longrightarrow> e \<noteq> errUsage"
  using process_not_usage [of L s ch del] by auto

lemma workTurn_not_usage: "snd (workTurn L t ch queue) \<noteq> Stopped (Failed errUsage)"
  by (rule workTurn_cases [of t])
    (auto simp: workTurn_cancelled workTurn_empty workTurn_get_fails workTurn_message
      split: result.splits dest: process_Failed_not_usage)

lemma work_not_usage: "snd (work L ctx ch queue) \<noteq> Stopped (Failed errUsage)"
  by (induction ctx arbitrary: ch) (simp_all add: work_Cons workTurn_not_usage)

lemma Dial_fields:
  "dials (fst (Dial w url r)) = dials w @ [url]" "snd (Dial w url r) = map_option ExtErr r"
  by (simp_all add: Dial_def)

lemma Channel_fields:
  "dials (fst (Channel w r)) = dials w" "snd (Channel w r) = map_option ExtErr r"
  by (simp_all add: Channel_def)

lemma run_usage:
  "\<not> (length args = 3 \<and> args ! 1 \<noteq> '''' \<and> args ! 2 \<noteq> '''') \<Longrightarrow>
     run L e args w = (w, Stopped (Failed errUsage))"
  by (auto simp: run_def Let_def)

lemma run_connects:
  assumes "length args = 3" "args ! 1 \<noteq> ''''" "args ! 2 \<noteq> ''''"
  shows "snd (run L e args w) \<noteq> Stopped (Failed errUsage)"
    and "dials (fst (run L e args w)) = dials w @ [args ! 1]"
  using assms
  by (simp_all add: run_def Let_def case_prod_beta Dial_fields Channel_fields work_not_usage
      work_dials split: option.splits)

lemma run_work:
  assumes "length args = 3" "args ! 1 \<noteq> ''''" "args ! 2 \<noteq> ''''"
    "dialRes e = None" "channelRes e = None"
  shows "run L e args w =
    work L (turns e) (fst (Channel (fst (Dial w (args ! 1) None)) None)) (args ! 2)"
  using assms by (simp add: run_def Let_def case_prod_beta Dial_fields Channel_fields)

lemma run_dial_fails:
  assumes "length args = 3" "args ! 1 \<noteq> ''''" "args ! 2 \<noteq> ''''" "dialRes e = Some msg"
  shows "run L e args w =
    (fst (Dial w (args ! 1) (Some msg)), Stopped (Failed (ExtErr msg)))"
  using assms by (simp add: run_def Let_def case_prod_beta Dial_def)

lemma run_channel_fails:
  assumes "length args = 3" "args ! 1 \<noteq> ''''" "args ! 2 \<noteq> ''''"
    "dialRes e = None" "channelRes e = Some msg"
  shows "run L e args w =
    (fst (Channel (fst (Dial w (args ! 1) None)) (Some msg)), Stopped (Failed (ExtErr msg)))"
  using assms by (simp add: run_def Let_def case_prod_beta Dial_def Channel_def)

lemma work_append:
  "work L (pre @ rest) ch queue =
     (if snd (work L pre ch queue) = Running
      then work L rest (fst (work L pre ch queue)) queue
      else work L pre ch queue)"
  by (induction pre arbitrary: ch) (simp_all add: work_Cons)

lemma work_at:
  assumes "snd (work L pre ch queue) = Running"
  shows "work L (pre @ t # post) ch queue =
     (if snd (workTurn L t (fst (work L pre ch queue)) queue) = Running
      then work L post (fst (workTurn L t (fst (work L pre ch queue)) queue)) queue
      else workTurn L t (fst (work L pre ch queue)) queue)"
  using assms by (simp add: work_append work_Cons)

lemma main_Failed:
  "snd (run L e args w) = Stopped (Failed err) \<Longrightarrow>
     main L e args w = (Println (fst (run L e args w)) (Error err), Some 1)"
  by (simp add: main_def case_prod_beta)

lemma main_Success:
  "snd (run L e args w) = Stopped Success \<Longrightarrow> main L e args w = (fst (run L e args w), Some 0)"
  by (simp add: main_def case_prod_beta)

lemma main_Panic:
  "snd (run L e args w) = Stopped Panic \<Longrightarrow> main L e args w = (fst (run L e args w), Some 2)"
  by (simp add: main_def case_prod_beta)

lemma main_Running:
  "snd (run L e args w) = Running \<Longrightarrow> main L e args w = (fst (run L e args w), None)"
  by (simp add: main_def case_prod_beta)

lemma Println_stdout:
  "stdout (Println w s) = fst (Fprintln (stdout w) s)"
  by (simp add: Println_def)

text \<open>
  Claim C8. When \<^verbatim>\<open>os.Args\<close> does not hold exactly the program name, a non-empty
  URL and a non-empty queue name, \<^verbatim>\<open>run\<close> returns \<^verbatim>\<open>errUsage\<close> with the state
  untouched, so without any call to the broker, and \<^verbatim>\<open>main\<close> prints the usage line
  and exits with status 1. When it does hold them, \<^verbatim>\<open>run\<close> dials the URL and never
  returns \<^verbatim>\<open>errUsage\<close>: it returns the error of \<^verbatim>\<open>Dial\<close> if \<^verbatim>\<open>Dial\<close> fails, the
  error of \<^verbatim>\<open>Channel\<close> if \<^verbatim>\<open>Channel\<close> fails, and otherwise whatever \<^verbatim>\<open>work\<close>
  returns on the channel and the queue. \<^verbatim>\<open>main\<close> exits with status 1 after writing
  the error and a line break to the standard output whenever \<^verbatim>\<open>run\<close> returns an
  error, and with status 0 when \<^verbatim>\<open>run\<close> returns \<^verbatim>\<open>nil\<close>. So, once connected and
  after any number of turns that left the loop running, a turn that finds the signal set
  or the queue empty ends the process with status 0, and a turn in which \<^verbatim>\<open>Get\<close> or
  \<^verbatim>\<open>process\<close> fails ends it with status 1 and that error printed.
\<close>

theorem C8_usage_and_exit_status:
  "(\<not> (length args = 3 \<and> args ! 1 \<noteq> '''' \<and> args ! 2 \<noteq> '''') \<longrightarrow>
      run L e args w = (w, Stopped (Failed errUsage))
      \<and> main L e args w = (Println w ''usage: amqp-dead-letter <url> <queue>'', Some 1))
   \<and> (length args = 3 \<and> args ! 1 \<noteq> '''' \<and> args ! 2 \<noteq> '''' \<longrightarrow>
        snd (run L e args w) \<noteq> Stopped (Failed errUsage)
        \<and> dials (fst (run L e args w)) = dials w @ [args ! 1])
   \<and> (\<forall>err. snd (run L e args w) = Stopped (Failed err) \<longrightarrow>
        main L e args w = (Println (fst (run L e args w)) (Error err), Some 1))
   \<and> (snd (run L e args w) = Stopped Success \<longrightarrow>
        main L e args w = (fst (run L e args w), Some 0))
   \<and> (\<forall>t ctx. length args = 3 \<and> args ! 1 \<noteq> '''' \<and> args ! 2 \<noteq> ''''
          \<and> dialRes e = None \<and> channelRes e = None \<and> turns e = t # ctx
          \<and> (cancelled t \<or> getRes t = Inr None) \<longrightarrow>
        snd (main L e args w) = Some 0)
   \<and> (\<forall>err. snd (run L e args w) = Stopped (Failed err) \<longrightarrow>
        stdout (fst (main L e args w)) =
          fst (Fprintln (stdout (fst (run L e args w))) (Error err)))
   \<and> (snd (run L e args w) = Stopped Panic \<longrightarrow>
        main L e args w = (fst (run L e args w), Some 2))
   \<and> (snd (run L e args w) = Running \<longrightarrow> main L e args w = (fst (run L e args w), None))
   \<and> (\<forall>msg. length args = 3 \<and> args ! 1 \<noteq> '''' \<and> args ! 2 \<noteq> ''''
          \<and> dialRes e = Some msg \<longrightarrow>
        run L e args w = (fst (Dial w (args ! 1) (Some msg)), Stopped (Failed (ExtErr msg)))
        \<and> main L e args w = (Println (fst (Dial w (args ! 1) (Some msg))) msg, Some 1))
   \<and> (\<forall>msg. length args = 3 \<and> args ! 1 \<noteq> '''' \<and> args ! 2 \<noteq> ''''
          \<and> dialRes e = None \<and> channelRes e = Some msg \<longrightarrow>
        run L e args w =
          (fst (Channel (fst (Dial w (args ! 1) None)) (Some msg)),
           Stopped (Failed (ExtErr msg)))
        \<and> main L e args w =
          (Println (fst (Channel (fst (Dial w (args ! 1) None)) (Some msg))) msg, Some 1))
   \<and> (length args = 3 \<and> args ! 1 \<noteq> '''' \<and> args ! 2 \<noteq> ''''
          \<and> dialRes e = None \<and> channelRes e = None \<longrightarrow>
        run L e args w =
          work L (turns e) (fst (Channel (fst (Dial w (args ! 1) None)) None)) (args ! 2))
   \<and> (\<forall>pre t post. length args = 3 \<and> args ! 1 \<noteq> '''' \<and> args ! 2 \<noteq> ''''
          \<and> dialRes e = None \<and> channelRes e = None \<and> turns e = pre @ t # post
          \<and> snd (work L pre (fst (Channel (fst (Dial w (args ! 1) None)) None)) (args ! 2))
              = Running \<longrightarrow>
        (cancelled t \<or> getRes t = Inr None \<longrightarrow>
           snd (run L e args w) = Stopped Success \<and> snd (main L e args w) = Some 0)
        \<and> (\<forall>msg. \<not> cancelled t \<and> getRes t = Inl msg \<longrightarrow>
             snd (run L e args w) = Stopped (Failed (ExtErr msg))
             \<and> main L e args w = (Println (fst (run L e args w)) msg, Some 1))
        \<and> (\<forall>del err. \<not> cancelled t \<and> getRes t = Inr (Some del)
               \<and> snd (process L (turnScript t)
                    (fst (Get (fst (work L pre
                       (fst (Channel (fst (Dial w (args ! 1) None)) None)) (args ! 2)))
                       (args ! 2) False (getRes t))) del) = Failed err \<longrightarrow>
             snd (run L e args w) = Stopped (Failed err)
             \<and> main L e args w = (Println (fst (run L e args w)) (Error err), Some 1)))"
proof -
  let ?G = "length args = 3 \<and> args ! 1 \<noteq> '''' \<and> args ! 2 \<noteq> ''''"
  let ?ch = "fst (Channel (fst (Dial w (args ! 1) None)) None)"
  have u: "run L e args w = (w, Stopped (Failed errUsage))
      \<and> main L e args w = (Println w ''usage: amqp-dead-letter <url> <queue>'', Some 1)"
    if "\<not> ?G"
    using run_usage [OF that, of L e w] by (simp add: main_def Error_def)
  have c2: "snd (run L e args w) \<noteq> Stopped (Failed errUsage)
        \<and> dials (fst (run L e args w)) = dials w @ [args ! 1]" if "?G"
    using that run_connects [of args L e w] by blast
  have s: "snd (main L e args w) = Some 0"
    if "?G \<and> dialRes e = None \<and> channelRes e = None \<and> turns e = t # ctx
          \<and> (cancelled t \<or> getRes t = Inr None)" for t ctx
  proof -
    have "snd (workTurn L t ?ch (args ! 2)) = Stopped Success"
      using that workTurn_cancelled [of t L ?ch "args ! 2"] workTurn_empty [of t L ?ch "args ! 2"]
      by (cases "cancelled t") auto
    then have "snd (run L e args w) = Stopped Success"
      using that by (simp add: run_work work_Cons)
    then show ?thesis
      by (simp add: main_Success)
  qed
  have p: "stdout (fst (main L e args w)) =
      fst (Fprintln (stdout (fst (run L e args w))) (Error err))"
    if "snd (run L e args w) = Stopped (Failed err)" for err
    by (simp add: main_Failed [OF that] Println_stdout)
  have d: "run L e args w = (fst (Dial w (args ! 1) (Some msg)), Stopped (Failed (ExtErr msg)))
        \<and> main L e args w = (Println (fst (Dial w (args ! 1) (Some msg))) msg, Some 1)"
    if "?G \<and> dialRes e = Some msg" for msg
  proof -
    have r: "run L e args w =
        (fst (Dial w (args ! 1) (Some msg)), Stopped (Failed (ExtErr msg)))"
      using that by (simp add: run_dial_fails)
    then have "snd (run L e args w) = Stopped (Failed (ExtErr msg))" by simp
    from main_Failed [OF this] r show ?thesis by (simp add: Error_def)
  qed
  have c: "run L e args w =
          (fst (Channel (fst (Dial w (args ! 1) None)) (Some msg)),
           Stopped (Failed (ExtErr msg)))
        \<and> main L e args w =
          (Println (fst (Channel (fst (Dial w (args ! 1) None)) (Some msg))) msg, Some 1)"
    if "?G \<and> dialRes e = None \<and> channelRes e = Some msg" for msg
  proof -
    have r: "run L e args w =
        (fst (Channel (fst (Dial w (args ! 1) None)) (Some msg)),
         Stopped (Failed (ExtErr msg)))"
      using that by (simp add: run_channel_fails)
    then have "snd (run L e args w) = Stopped (Failed (ExtErr msg))" by simp
    from main_Failed [OF this] r show ?thesis by (simp add: Error_def)
  qed
  have k: "run L e args w = work L (turns e) ?ch (args ! 2)"
    if "?G \<and> dialRes e = None \<and> channelRes e = None"
    using that by (simp add: run_work)
  have l: "(cancelled t \<or> getRes t = Inr None \<longrightarrow>
           snd (run L e args w) = Stopped Success \<and> snd (main L e args w) = Some 0)
        \<and> (\<forall>msg. \<not> cancelled t \<and> getRes t = Inl msg \<longrightarrow>
             snd (run L e args w) = Stopped (Failed (ExtErr msg))
             \<and> main L e args w = (Println (fst (run L e args w)) msg, Some 1))
        \<and> (\<forall>del err. \<not> cancelled t \<and> getRes t = Inr (Some del)
               \<and> snd (process L (turnScript t)
                    (fst (Get (fst (work L pre ?ch (args ! 2)))
                       (args ! 2) False (getRes t))) del) = Failed err \<longrightarrow>
             snd (run L e args w) = Stopped (Failed err)
             \<and> main L e args w = (Println (fst (run L e args w)) (Error err), Some 1))"
    if h: "?G \<and> dialRes e = None \<and> channelRes e = None \<and> turns e = pre @ t # post
          \<and> snd (work L pre ?ch (args ! 2)) = Running" for pre t post
  proof -
    let ?c1 = "fst (work L pre ?ch (args ! 2))"
    from h have pr: "snd (work L pre ?ch (args ! 2)) = Running" by blast
    have r: "run L e args w =
        (if snd (workTurn L t ?c1 (args ! 2)) = Running
         then work L post (fst (workTurn L t ?c1 (args ! 2))) (args ! 2)
         else workTurn L t ?c1 (args ! 2))"
      using h work_at [OF pr, of t post] by (simp add: run_work)
    have a: "snd (run L e args w) = Stopped Success \<and> snd (main L e args w) = Some 0"
      if "cancelled t \<or> getRes t = Inr None"
    proof -
      have "snd (workTurn L t ?c1 (args ! 2)) = Stopped Success"
        using that workTurn_cancelled [of t L ?c1 "args ! 2"]
          workTurn_empty [of t L ?c1 "args ! 2"]
        by (cases "cancelled t") auto
      then have "snd (run L e args w) = Stopped Success"
        by (simp add: r)
      then show ?thesis by (simp add: main_Success)
    qed
    have b: "snd (run L e args w) = Stopped (Failed (ExtErr msg))
        \<and> main L e args w = (Println (fst (run L e args w)) msg, Some 1)"
      if "\<not> cancelled t \<and> getRes t = Inl msg" for msg
    proof -
      have "snd (workTurn L t ?c1 (args ! 2)) = Stopped (Failed (ExtErr msg))"
        using that workTurn_get_fails [of t msg L ?c1 "args ! 2"] by simp
      then have x: "snd (run L e args w) = Stopped (Failed (ExtErr msg))"
        by (simp add: r)
      from main_Failed [OF x] x show ?thesis by (simp add: Error_def)
    qed
    have f: "snd (run L e args w) = Stopped (Failed err)
        \<and> main L e args w = (Println (fst (run L e args w)) (Error err), Some 1)"
      if "\<not> cancelled t \<and> getRes t = Inr (Some del)
          \<and> snd (process L (turnScript t)
               (fst (Get ?c1 (args ! 2) False (getRes t))) del) = Failed err" for del err
    proof -
      from that have g: "\<not> cancelled t" "getRes t = Inr (Some del)"
        and pf: "snd (process L (turnScript t)
               (fst (Get ?c1 (args ! 2) False (getRes t))) del) = Failed err"
        by blast+
      have "snd (workTurn L t ?c1 (args ! 2)) = Stopped (Failed err)"
        by (simp only: workTurn_message [OF g] snd_conv pf result.case)
      then have x: "snd (run L e args w) = Stopped (Failed err)"
        by (simp add: r)
      from main_Failed [OF x] x show ?thesis by simp
    qed
    show ?thesis
      using a b f by blast
  qed
  show ?thesis
    apply (intro conjI allI impI)
    subgoal using u by blast
    subgoal using u by blast
    subgoal using c2 by blast
    subgoal using c2 by blast
    subgoal by (rule main_Failed)
    subgoal by (rule main_Success)
    subgoal using s by blast
    subgoal by (rule p)
    subgoal by (rule main_Panic)
    subgoal by (rule main_Running)
    subgoal using d by blast
    subgoal using d by blast
    subgoal using c by blast
    subgoal using c by blast
    subgoal using k by blast
    subgoal using l by blast
    subgoal using l by blast
    subgoal using l by blast
    subgoal using l by blast
    subgoal using l by blast
    subgoal using l by blast
    done
qed

text \<open>
  A missing argument, an empty queue name, a refused connection, a refused channel,
  and loops that end on an empty queue, an interrupt, a failing fetch and a failing save,
  at the first turn or after a message, as instances of C8.
\<close>

theorem C8_usage_and_exit_status_example:
  "main lib0 (connected [drained]) [''amqp-dead-letter''] world0 =
     (Println world0 ''usage: amqp-dead-letter <url> <queue>'', Some 1)
   \<and> run lib0 (connected [drained]) [''amqp-dead-letter'', ''amqp://localhost'', ''''] world0 =
     (world0, Stopped (Failed errUsage))
   \<and> dials (fst (run lib0 (connected [drained])
         [''amqp-dead-letter'', ''amqp://localhost'', ''DL''] world0)) = [''amqp://localhost'']
   \<and> snd (main lib0 (connected [drained])
         [''amqp-dead-letter'', ''amqp://localhost'', ''DL''] world0) = Some 0
   \<and> snd (main lib0 (connected [interrupted])
         [''amqp-dead-letter'', ''amqp://localhost'', ''DL''] world0) = Some 0
   \<and> snd (main lib0 ((connected [drained])\<lparr>dialRes := Some ''connection refused''\<rparr>)
         [''amqp-dead-letter'', ''amqp://localhost'', ''DL''] world0) = Some 1
   \<and> snd (main lib0 ((connected [drained])\<lparr>channelRes := Some ''channel refused''\<rparr>)
         [''amqp-dead-letter'', ''amqp://localhost'', ''DL''] world0) = Some 1
   \<and> snd (main lib0 (connected [getFails])
         [''amqp-dead-letter'', ''amqp://localhost'', ''DL''] world0) = Some 1
   \<and> snd (main lib0 (connected [deliver dead1 (pick 3), drained])
         [''amqp-dead-letter'', ''amqp://localhost'', ''DL''] world0) = Some 0
   \<and> snd (main lib0 (connected [deliver dead1 (pick 3), interrupted])
         [''amqp-dead-letter'', ''amqp://localhost'', ''DL''] world0) = Some 0
   \<and> snd (main lib0 (connected [deliver dead1 (pick 3), getFails])
         [''amqp-dead-letter'', ''amqp://localhost'', ''DL''] world0) = Some 1
   \<and> snd (main lib0 (connected [deliver dead1 closeFails, drained])
         [''amqp-dead-letter'', ''amqp://localhost'', ''DL''] world0) = Some 1
   \<and> wout (stdout (fst (main lib0
         ((connected [drained])\<lparr>channelRes := Some ''channel refused''\<rparr>)
         [''amqp-dead-letter'', ''amqp://localhost'', ''DL''] world0))) =
       [Text (''channel refused'' @ newline)]"
proof -
  let ?good = "[''amqp-dead-letter'', ''amqp://localhost'', ''DL'']"
  let ?refused = "(connected [drained])\<lparr>dialRes := Some ''connection refused''\<rparr>"
  let ?nochannel = "(connected [drained])\<lparr>channelRes := Some ''channel refused''\<rparr>"
  let ?d = "deliver dead1 (pick 3)"
  let ?c = "deliver dead1 closeFails"
  let ?ch = "fst (Channel (fst (Dial world0 ''amqp://localhost'' None)) None)"
  have g: "length ?good = 3 \<and> ?good ! 1 \<noteq> '''' \<and> ?good ! 2 \<noteq> ''''"
    by simp
  have b1: "\<not> (length [''amqp-dead-letter''] = 3 \<and> [''amqp-dead-letter''] ! 1 \<noteq> ''''
      \<and> [''amqp-dead-letter''] ! 2 \<noteq> '''')"
    by simp
  have b2: "\<not> (length [''amqp-dead-letter'', ''amqp://localhost'', ''''] = 3
      \<and> [''amqp-dead-letter'', ''amqp://localhost'', ''''] ! 1 \<noteq> ''''
      \<and> [''amqp-dead-letter'', ''amqp://localhost'', ''''] ! 2 \<noteq> '''')"
    by simp
  have c: "dialRes (connected ts) = None" "channelRes (connected ts) = None"
    "turns (connected ts) = ts" for ts
    by (simp_all add: connected_def)
  have a1: "main lib0 (connected [drained]) [''amqp-dead-letter''] world0 =
     (Println world0 ''usage: amqp-dead-letter <url> <queue>'', Some 1)"
    using C8_usage_and_exit_status [of "[''amqp-dead-letter'']" lib0 "connected [drained]"
        world0, THEN conjunct1, rule_format, OF b1, THEN conjunct2] .
  have a2: "run lib0 (connected [drained])
      [''amqp-dead-letter'', ''amqp://localhost'', ''''] world0 =
     (world0, Stopped (Failed errUsage))"
    using C8_usage_and_exit_status [of "[''amqp-dead-letter'', ''amqp://localhost'', '''']"
        lib0 "connected [drained]" world0, THEN conjunct1, rule_format, OF b2, THEN conjunct1] .
  note d = C8_usage_and_exit_status [of ?good lib0 "connected [drained]" world0]
  have a3: "dials (fst (run lib0 (connected [drained]) ?good world0)) = [''amqp://localhost'']"
    using d [THEN conjunct2, THEN conjunct1, rule_format, OF g, THEN conjunct2]
    by (simp add: world0_facts)
  have a4: "snd (main lib0 (connected [drained]) ?good world0) = Some 0"
    using d [THEN conjunct2, THEN conjunct2, THEN conjunct2, THEN conjunct2, THEN conjunct1,
        rule_format, of drained "[]"]
    by (simp add: c turn_facts)
  have a5: "snd (main lib0 (connected [interrupted]) ?good world0) = Some 0"
    using C8_usage_and_exit_status [of ?good lib0 "connected [interrupted]" world0,
        THEN conjunct2, THEN conjunct2, THEN conjunct2, THEN conjunct2, THEN conjunct1,
        rule_format, of interrupted "[]"]
    by (simp add: c turn_facts)
  \<comment> \<open>\<^verbatim>\<open>Dial\<close> and \<^verbatim>\<open>Channel\<close> fail\<close>
  have a6: "snd (main lib0 ?refused ?good world0) = Some 1"
    using C8_usage_and_exit_status [of ?good lib0 ?refused world0, THEN conjunct2,
        THEN conjunct2, THEN conjunct2, THEN conjunct2, THEN conjunct2, THEN conjunct2,
        THEN conjunct2, THEN conjunct2, THEN conjunct1, rule_format,
        of "''connection refused''"]
    by (simp add: connected_def)
  have n: "main lib0 ?nochannel ?good world0 =
      (Println (fst (Channel (fst (Dial world0 ''amqp://localhost'' None))
         (Some ''channel refused''))) ''channel refused'', Some 1)"
    using C8_usage_and_exit_status [of ?good lib0 ?nochannel world0, THEN conjunct2,
        THEN conjunct2, THEN conjunct2, THEN conjunct2, THEN conjunct2, THEN conjunct2,
        THEN conjunct2, THEN conjunct2, THEN conjunct2, THEN conjunct1, rule_format,
        of "''channel refused''"]
    by (simp add: connected_def)
  have a7: "snd (main lib0 ?nochannel ?good world0) = Some 1"
    by (simp add: n)
  have a8: "wout (stdout (fst (main lib0 ?nochannel ?good world0))) =
      [Text (''channel refused'' @ newline)]"
    by (simp only: n fst_conv)
      (simp add: Println_def Channel_def Dial_def world0_def Fprintln_def Write_def)
  \<comment> \<open>the loop stops at its first turn, or after a message\<close>
  have pre: "snd (work lib0 [?d] ?ch ''DL'') = Running"
    by (simp add: work_Cons workTurn_message [OF turn_facts(6) turn_facts(7)]
        turn_facts process_dead1_discard)
  have nil: "snd (work lib0 [] ?ch ''DL'') = Running"
    by simp
  note loop = C8_usage_and_exit_status [THEN conjunct2, THEN conjunct2, THEN conjunct2,
      THEN conjunct2, THEN conjunct2, THEN conjunct2, THEN conjunct2, THEN conjunct2,
      THEN conjunct2, THEN conjunct2, THEN conjunct2, rule_format]
  have a9: "snd (main lib0 (connected [getFails]) ?good world0) = Some 1"
    using loop [of ?good "connected [getFails]" "[]" getFails "[]" lib0 world0,
        THEN conjunct2, THEN conjunct1, rule_format, of "''connection reset''"] nil
    by (simp add: c turn_facts)
  have a10: "snd (main lib0 (connected [?d, drained]) ?good world0) = Some 0"
    using loop [of ?good "connected [?d, drained]" "[?d]" drained "[]" lib0 world0,
        THEN conjunct1] pre
    by (simp add: c turn_facts)
  have a11: "snd (main lib0 (connected [?d, interrupted]) ?good world0) = Some 0"
    using loop [of ?good "connected [?d, interrupted]" "[?d]" interrupted "[]" lib0 world0,
        THEN conjunct1] pre
    by (simp add: c turn_facts)
  have a12: "snd (main lib0 (connected [?d, getFails]) ?good world0) = Some 1"
    using loop [of ?good "connected [?d, getFails]" "[?d]" getFails "[]" lib0 world0,
        THEN conjunct2, THEN conjunct1, rule_format, of "''connection reset''"] pre
    by (simp add: c turn_facts)
  have a13: "snd (main lib0 (connected [?c, drained]) ?good world0) = Some 1"
    using loop [of ?good "connected [?c, drained]" "[]" ?c "[drained]" lib0 world0,
        THEN conjunct2, THEN conjunct2, rule_format, of dead1
        "ExtErr ''input/output error''"] nil
    by (simp add: c turn_facts process_dead1_closeFails)
  show ?thesis
    using a1 a2 a3 a4 a5 a6 a7 a9 a10 a11 a12 a13 a8 by (simp only: simp_thms)
qed

end
